theory Spec2Isabelle
  imports Main "HOL-Library.Char_ord" "HOL-Library.List_Lexorder" "HOL-Library.AList"
begin

chapter \<open>Definitions: the embedded code\<close>

section \<open>Type system: DataType and the per-dialect type tables\<close>

text \<open>
  \<^verbatim>\<open>types.DataType\<close> is a closed enumeration. The adapters map it to dialect SQL types
  through Go map literals: \<^verbatim>\<open>SchemaToClickhouse\<close> (ClickHouse adapter),
  \<^verbatim>\<open>SchemaToPostgres\<close> (Postgres adapter), \<^verbatim>\<open>SchemaToBigQueryString\<close> (the earlier BigQuery
  adapter) and \<^verbatim>\<open>bigqueryTypes\<close> (bigquery.go). A Go map literal with distinct keys
  is a finite map; it is written here as the association list of the literal, read
  with \<^const>\<open>map_of\<close>.
\<close>

datatype DataType = STRING | INT64 | FLOAT64 | TIMESTAMP | BOOL | JSON | UNKNOWN

definition SchemaToClickhouse :: "DataType \<rightharpoonup> string" where
  "SchemaToClickhouse = map_of
     [(STRING, ''String''),
      (INT64, ''Int64''),
      (FLOAT64, ''Float64''),
      (TIMESTAMP, ''DateTime''),
      (BOOL, ''UInt8''),
      (UNKNOWN, ''String'')]"

definition SchemaToPostgres :: "DataType \<rightharpoonup> string" where
  "SchemaToPostgres = map_of
     [(STRING, ''text''),
      (INT64, ''bigint''),
      (FLOAT64, ''double precision''),
      (TIMESTAMP, ''timestamp''),
      (BOOL, ''boolean''),
      (UNKNOWN, ''text'')]"

text \<open>
  The field type names of the BigQuery client library
  (\<^verbatim>\<open>bigquery.StringFieldType\<close> and its siblings are string constants of that library).
\<close>

definition StringFieldType :: string where "StringFieldType = ''STRING''"
definition IntegerFieldType :: string where "IntegerFieldType = ''INTEGER''"
definition FloatFieldType :: string where "FloatFieldType = ''FLOAT''"
definition TimestampFieldType :: string where "TimestampFieldType = ''TIMESTAMP''"
definition BooleanFieldType :: string where "BooleanFieldType = ''BOOLEAN''"
definition JSONFieldType :: string where "JSONFieldType = ''JSON''"

definition SchemaToBigQueryString :: "DataType \<rightharpoonup> string" where
  "SchemaToBigQueryString = map_of
     [(STRING, StringFieldType),
      (INT64, IntegerFieldType),
      (FLOAT64, FloatFieldType),
      (TIMESTAMP, TimestampFieldType),
      (BOOL, BooleanFieldType),
      (UNKNOWN, StringFieldType)]"

definition bigqueryTypes :: "(DataType \<times> string list) list" where
  "bigqueryTypes =
     [(STRING, [StringFieldType]),
      (INT64, [IntegerFieldType]),
      (FLOAT64, [FloatFieldType]),
      (TIMESTAMP, [TimestampFieldType]),
      (BOOL, [BooleanFieldType]),
      (JSON, [JSONFieldType]),
      (UNKNOWN, [StringFieldType])]"

text \<open>
  \<^verbatim>\<open>init()\<close> of bigquery.go fills both mappings in one pass over \<^verbatim>\<open>bigqueryTypes\<close>:
  the first dialect type of every entry goes to the forward mapping, and every dialect
  type of an entry other than \<^verbatim>\<open>UNKNOWN\<close> goes to the reverse mapping.
\<close>

fun init_inner :: "DataType \<Rightarrow> nat \<Rightarrow> string list
    \<Rightarrow> (DataType \<rightharpoonup> string) \<times> (string \<rightharpoonup> DataType)
    \<Rightarrow> (DataType \<rightharpoonup> string) \<times> (string \<rightharpoonup> DataType)" where
  "init_inner dataType i [] (fwd, bwd) = (fwd, bwd)"
| "init_inner dataType i (postgresType # rest) (fwd, bwd) =
     init_inner dataType (Suc i) rest
       (if i = 0 then fwd(dataType \<mapsto> postgresType) else fwd,
        if dataType \<noteq> UNKNOWN then bwd(postgresType \<mapsto> dataType) else bwd)"

definition bigquery_init :: "(DataType \<rightharpoonup> string) \<times> (string \<rightharpoonup> DataType)" where
  "bigquery_init =
     fold (\<lambda>(dataType, postgresTypes). init_inner dataType 0 postgresTypes)
       bigqueryTypes (Map.empty, Map.empty)"

definition bigqueryTypeMapping :: "DataType \<rightharpoonup> string" where
  "bigqueryTypeMapping = fst bigquery_init"

definition bigqueryReverseTypeMapping :: "string \<rightharpoonup> DataType" where
  "bigqueryReverseTypeMapping = snd bigquery_init"

text \<open>\<^verbatim>\<open>GetSQLType\<close> and \<^verbatim>\<open>GetDataType\<close> return the map entry and its presence flag.\<close>

definition GetSQLType :: "DataType \<Rightarrow> string option" where
  "GetSQLType dataType = bigqueryTypeMapping dataType"

definition GetDataType :: "string \<Rightarrow> DataType option" where
  "GetDataType sqlType = bigqueryReverseTypeMapping sqlType"


section \<open>Stream state and the shared stream preamble (abstract.go)\<close>

text \<open>
  \<^verbatim>\<open>bulker.State\<close> as abstract.go uses it: the status and the two row counters, the
  index of the last failed row and the last error. The Go counters are \<^verbatim>\<open>int\<close>; they
  only ever grow by one and are modelled as \<^typ>\<open>int\<close>.
\<close>

datatype Status = Active | Completed | Failed | Aborted

text \<open>
  \<^verbatim>\<open>bulker.BulkMode\<close> is a named Go type with four declared values; a value outside
  them is possible and reaches the default branch of \<^verbatim>\<open>CreateStream\<close>. bigquery.go calls
  the modes \<^verbatim>\<open>Stream\<close>, \<^verbatim>\<open>Batch\<close>, \<^verbatim>\<open>ReplaceTable\<close>, \<^verbatim>\<open>ReplacePartition\<close>; the earlier
  files call the first two \<^verbatim>\<open>AutoCommit\<close> and \<^verbatim>\<open>Transactional\<close>.
\<close>

datatype BulkMode = Stream | Batch | ReplaceTable | ReplacePartition | OtherMode string

abbreviation (input) AutoCommit :: BulkMode where "AutoCommit \<equiv> Stream"
abbreviation (input) Transactional :: BulkMode where "Transactional \<equiv> Batch"

text \<open>
  The errors the embedded functions create themselves, and \<open>ErrExternal\<close> for an error
  that a collaborator outside the sources returned.
\<close>

datatype 'e err =
    ErrStreamNotActive Status
  | ErrMergeRequiresPK
  | BigQueryAutocommitUnsupported
  | ErrUnsupportedBulkMode BulkMode
  | ErrExternal 'e

record 'e State =
  Status :: Status
  ProcessedRows :: int
  SuccessfulRows :: int
  ErrorRowIndex :: int
  LastError :: "'e err option"

text \<open>
  Stream options are functions that fill \<^verbatim>\<open>bulker.StreamOptions\<close>; the ones the sources
  read are the merge flag, the primary key, the column type overrides and the local
  batch file name.
\<close>

datatype StreamOption =
    WithMergeRows
  | WithPrimaryKey "string list"
  | WithColumnTypes "(string \<times> string) list"
  | withLocalBatchFile string

record StreamOptions =
  mergeRowsOption :: bool
  primaryKeyOption :: "string list"
  columnTypesOption :: "(string \<times> string) list"
  localBatchFileOption :: string

definition emptyStreamOptions :: StreamOptions where
  "emptyStreamOptions =
     \<lparr>mergeRowsOption = False, primaryKeyOption = [], columnTypesOption = [],
      localBatchFileOption = []\<rparr>"

fun applyOption :: "StreamOption \<Rightarrow> StreamOptions \<Rightarrow> StreamOptions" where
  "applyOption WithMergeRows os = os\<lparr>mergeRowsOption := True\<rparr>"
| "applyOption (WithPrimaryKey pk) os = os\<lparr>primaryKeyOption := pk\<rparr>"
| "applyOption (WithColumnTypes cts) os = os\<lparr>columnTypesOption := cts\<rparr>"
| "applyOption (withLocalBatchFile f) os = os\<lparr>localBatchFileOption := f\<rparr>"

text \<open>
  \<^verbatim>\<open>AbstractSQLStream\<close>: the fields that hold values. The adapter and the table helper
  it also points to are collaborators outside the sources; what the embedded functions
  ask of them is the parameter record \<open>engine\<close> below.
\<close>

record 'e AbstractSQLStream =
  id' :: string
  mode :: BulkMode
  options :: StreamOptions
  tableName :: string
  merge :: bool
  state :: "'e State"
  inited :: bool

text \<open>
  \<^verbatim>\<open>newAbstractStream\<close>: the options are applied in order; a merge stream without a
  primary key is refused; a new stream starts \<^const>\<open>Active\<close> with zeroed counters.
\<close>

definition newAbstractStream ::
  "string \<Rightarrow> string \<Rightarrow> BulkMode \<Rightarrow> StreamOption list \<Rightarrow> 'e err + 'e AbstractSQLStream" where
  "newAbstractStream i tn m streamOptions =
     (let os = fold applyOption streamOptions emptyStreamOptions;
          mg = mergeRowsOption os
      in if mg \<and> length (primaryKeyOption os) = 0 then Inl ErrMergeRequiresPK
         else Inr \<lparr>id' = i, mode = m, options = os, tableName = tn, merge = mg,
                   state = \<lparr>Status = Active, ProcessedRows = 0, SuccessfulRows = 0,
                            ErrorRowIndex = 0, LastError = None\<rparr>,
                   inited = False\<rparr>)"

text \<open>
  The functions \<^verbatim>\<open>preprocess\<close> calls but the sources do not hold (\<^verbatim>\<open>ProcessEvents\<close>,
  \<^verbatim>\<open>Fields.OverrideTypes\<close>, \<^verbatim>\<open>TableHelper.MapTableSchema\<close>) are parameters.
\<close>

record ('obj, 'hdr, 'tbl, 'e) engine =
  ProcessEvents :: "string \<Rightarrow> 'obj list \<Rightarrow> 'e + ('hdr \<times> 'obj list)"
  OverrideTypes :: "'hdr \<Rightarrow> (string \<times> string) list \<Rightarrow> 'hdr"
  MapTableSchema :: "'hdr \<Rightarrow> 'tbl"

text \<open>
  \<^verbatim>\<open>preprocess\<close> returns the table and the processed objects, or an error; the stream it
  leaves behind is returned next to the result. The status check comes first and the
  counter is incremented last, as in the source.
\<close>

definition preprocess ::
  "('obj, 'hdr, 'tbl, 'e) engine \<Rightarrow> 'e AbstractSQLStream \<Rightarrow> 'obj
     \<Rightarrow> ('e err + ('tbl \<times> 'obj list)) \<times> 'e AbstractSQLStream" where
  "preprocess eng ps object =
     (if Status (state ps) \<noteq> Active then (Inl (ErrStreamNotActive (Status (state ps))), ps)
      else case ProcessEvents eng (tableName ps) [object] of
             Inl e \<Rightarrow> (Inl (ErrExternal e), ps)
           | Inr (batchHeader, processedObjects) \<Rightarrow>
               (let customFields = columnTypesOption (options ps);
                    batchHeader' = (if length customFields > 0
                                    then OverrideTypes eng batchHeader customFields
                                    else batchHeader);
                    table = MapTableSchema eng batchHeader'
                in (Inr (table, processedObjects),
                    ps\<lparr>state := (state ps)\<lparr>ProcessedRows := ProcessedRows (state ps) + 1\<rparr>\<rparr>)))"

definition postConsume ::
  "'e AbstractSQLStream \<Rightarrow> 'e err option \<Rightarrow> 'e err option \<times> 'e AbstractSQLStream" where
  "postConsume ps er =
     (case er of
        Some e \<Rightarrow> (Some e, ps\<lparr>state := (state ps)\<lparr>ErrorRowIndex := ProcessedRows (state ps),
                                                   LastError := Some e\<rparr>\<rparr>)
      | None \<Rightarrow> (None, ps\<lparr>state := (state ps)\<lparr>SuccessfulRows := SuccessfulRows (state ps) + 1\<rparr>\<rparr>))"

definition postComplete ::
  "'e AbstractSQLStream \<Rightarrow> 'e err option \<Rightarrow> ('e State \<times> 'e err option) \<times> 'e AbstractSQLStream" where
  "postComplete ps er =
     (let ps' = (case er of
                   Some e \<Rightarrow> ps\<lparr>state := (state ps)\<lparr>LastError := Some e, Status := Failed\<rparr>\<rparr>
                 | None \<Rightarrow> ps\<lparr>state := (state ps)\<lparr>Status := Completed\<rparr>\<rparr>)
      in ((state ps', er), ps'))"

text \<open>
  Modelled from the spec: \<^verbatim>\<open>Consume\<close>, \<^verbatim>\<open>Complete\<close> and \<^verbatim>\<open>Abort\<close> of the mode-specific
  streams are not among the sources; abstract.go holds only the helpers they share.
  The spec (section 4.4): every \<^verbatim>\<open>Consume\<close> runs the shared preamble first (validate that
  the status is Active, ..., increment processedRows), then writes the object in the
  mode's way; "success increments successfulRows; failure sets lastError, errorRowIndex,
  returns the error". A call the preamble refuses fails with the preamble's error.
  \<^verbatim>\<open>Complete\<close> drives the mode's commit and ends in Completed or Failed
  (\<^const>\<open>postComplete\<close>); \<^verbatim>\<open>Abort\<close> takes an Active stream to Aborted. The outcome of the
  mode's write, and of the commit, is an argument of the call.
\<close>

definition Consume ::
  "('obj, 'hdr, 'tbl, 'e) engine \<Rightarrow> 'e AbstractSQLStream \<Rightarrow> 'obj \<Rightarrow> 'e option
     \<Rightarrow> 'e err option \<times> 'e AbstractSQLStream" where
  "Consume eng ps object written =
     (case preprocess eng ps object of
        (Inl e, ps') \<Rightarrow> (Some e, ps')
      | (Inr (table, processedObjects), ps') \<Rightarrow> postConsume ps' (map_option ErrExternal written))"

definition Complete :: "'e AbstractSQLStream \<Rightarrow> 'e option \<Rightarrow> 'e AbstractSQLStream" where
  "Complete ps committed = snd (postComplete ps (map_option ErrExternal committed))"

definition Abort :: "'e AbstractSQLStream \<Rightarrow> 'e AbstractSQLStream" where
  "Abort ps = (if Status (state ps) = Active
               then ps\<lparr>state := (state ps)\<lparr>Status := Aborted\<rparr>\<rparr> else ps)"

datatype ('obj, 'e) stream_call =
    CallConsume 'obj "'e option"
  | CallComplete "'e option"
  | CallAbort

fun call :: "('obj, 'hdr, 'tbl, 'e) engine \<Rightarrow> 'e AbstractSQLStream \<Rightarrow> ('obj, 'e) stream_call
    \<Rightarrow> 'e AbstractSQLStream" where
  "call eng ps (CallConsume object written) = snd (Consume eng ps object written)"
| "call eng ps (CallComplete committed) = Complete ps committed"
| "call eng ps CallAbort = Abort ps"

definition calls :: "('obj, 'hdr, 'tbl, 'e) engine \<Rightarrow> 'e AbstractSQLStream
    \<Rightarrow> ('obj, 'e) stream_call list \<Rightarrow> 'e AbstractSQLStream" where
  "calls eng ps cs = fold (\<lambda>c s. call eng s c) cs ps"

text \<open>
  A sequence of \<^verbatim>\<open>Consume\<close> calls, with two counts kept beside the stream: the calls that
  returned an error, and those of them that the preamble refused.
\<close>

fun consumeAll :: "('obj, 'hdr, 'tbl, 'e) engine \<Rightarrow> ('obj \<times> 'e option) list
    \<Rightarrow> 'e AbstractSQLStream \<times> nat \<times> nat \<Rightarrow> 'e AbstractSQLStream \<times> nat \<times> nat" where
  "consumeAll eng [] acc = acc"
| "consumeAll eng ((object, written) # rest) (ps, errors, refused) =
     (case preprocess eng ps object of
        (Inl e, _) \<Rightarrow>
          consumeAll eng rest (snd (Consume eng ps object written), Suc errors, Suc refused)
      | (Inr _, _) \<Rightarrow>
          (case Consume eng ps object written of
             (Some e, ps') \<Rightarrow> consumeAll eng rest (ps', Suc errors, refused)
           | (None, ps') \<Rightarrow> consumeAll eng rest (ps', errors, refused)))"


section \<open>BigQuery streaming insert (BigQuery.Insert)\<close>

definition bigqueryRowsLimitPerInsertOperation :: nat where
  "bigqueryRowsLimitPerInsertOperation = 500"

text \<open>
  \<^verbatim>\<open>BigQuery.Insert\<close> (the same loop in both BigQuery files). \<^verbatim>\<open>insertItems\<close> hands one
  chunk to the streaming inserter; what the inserter answers is the parameter \<open>put\<close>.
  The model returns the error (with the number of the failed operation) and the
  chunks that were handed to \<^verbatim>\<open>insertItems\<close>, in order. The figure \<^verbatim>\<open>operations\<close> only
  appears in the error text and is left out, and so is the kind under which the two
  files wrap the error.
\<close>

datatype 'e insert_error = MiddleInsertFailed nat 'e | LastInsertFailed nat 'e

fun insertLoop :: "('o list \<Rightarrow> 'e option) \<Rightarrow> 'o list \<Rightarrow> 'o list \<Rightarrow> nat \<Rightarrow> 'o list list
    \<Rightarrow> 'e insert_error option \<times> 'o list \<times> nat \<times> 'o list list" where
  "insertLoop put [] items operation sent = (None, items, operation, sent)"
| "insertLoop put (object # rest) items operation sent =
     (if length items > bigqueryRowsLimitPerInsertOperation then
        (case put items of
           Some e \<Rightarrow> (Some (MiddleInsertFailed (Suc operation) e), items, Suc operation,
                      sent @ [items])
         | None \<Rightarrow> insertLoop put rest [object] (Suc operation) (sent @ [items]))
      else insertLoop put rest (items @ [object]) operation sent)"

definition Insert :: "('o list \<Rightarrow> 'e option) \<Rightarrow> 'o list \<Rightarrow> 'e insert_error option \<times> 'o list list" where
  "Insert put objects =
     (case insertLoop put objects [] 0 [] of
        (Some e, _, _, sent) \<Rightarrow> (Some e, sent)
      | (None, items, operation, sent) \<Rightarrow>
          (if length items > 0 then
             (case put items of
                Some e \<Rightarrow> (Some (LastInsertFailed (Suc operation) e), sent @ [items])
              | None \<Rightarrow> (None, sent @ [items]))
           else (None, sent)))"



section \<open>BigQuery.CreateStream\<close>

text \<open>
  The stream constructors of the four modes are not among the sources; they are
  parameters. \<^verbatim>\<open>utils.SanitizeString\<close> is a parameter too.
\<close>

record ('s, 'e) constructors =
  newAutoCommitStream :: "string \<Rightarrow> string \<Rightarrow> StreamOption list \<Rightarrow> 'e err + 's"
  newTransactionalStream :: "string \<Rightarrow> string \<Rightarrow> StreamOption list \<Rightarrow> 'e err + 's"
  newReplaceTableStream :: "string \<Rightarrow> string \<Rightarrow> StreamOption list \<Rightarrow> 'e err + 's"
  newReplacePartitionStream :: "string \<Rightarrow> string \<Rightarrow> StreamOption list \<Rightarrow> 'e err + 's"

text \<open>
  bigquery.go: \<^verbatim>\<open>validateOptions\<close> always returns nil and its result is dropped; the
  local batch file option is appended; then the switch on the mode.
\<close>

definition BigQuery_CreateStream ::
  "(string \<Rightarrow> string) \<Rightarrow> ('s, 'e) constructors
     \<Rightarrow> string \<Rightarrow> string \<Rightarrow> BulkMode \<Rightarrow> StreamOption list \<Rightarrow> 'e err + 's" where
  "BigQuery_CreateStream SanitizeString ctors i tn m streamOptions =
     (let streamOptions' = streamOptions @ [withLocalBatchFile (''bulker_'' @ SanitizeString i)]
      in case m of
           Stream \<Rightarrow> Inl BigQueryAutocommitUnsupported
         | Batch \<Rightarrow> newTransactionalStream ctors i tn streamOptions'
         | ReplaceTable \<Rightarrow> newReplaceTableStream ctors i tn streamOptions'
         | ReplacePartition \<Rightarrow> newReplacePartitionStream ctors i tn streamOptions'
         | OtherMode s \<Rightarrow> Inl (ErrUnsupportedBulkMode m))"

text \<open>The earlier BigQuery adapter (part_002): the switch alone.\<close>

definition BigQuery_CreateStream_part_002 ::
  "('s, 'e) constructors \<Rightarrow> string \<Rightarrow> string \<Rightarrow> BulkMode \<Rightarrow> StreamOption list \<Rightarrow> 'e err + 's" where
  "BigQuery_CreateStream_part_002 ctors i tn m streamOptions =
     (case m of
        AutoCommit \<Rightarrow> newAutoCommitStream ctors i tn streamOptions
      | Transactional \<Rightarrow> newTransactionalStream ctors i tn streamOptions
      | ReplaceTable \<Rightarrow> newReplaceTableStream ctors i tn streamOptions
      | ReplacePartition \<Rightarrow> newReplacePartitionStream ctors i tn streamOptions
      | OtherMode s \<Rightarrow> Inl (ErrUnsupportedBulkMode m))"



section \<open>BigQuery identifier normalization (tableNameFunc, columnNameFunc)\<close>

text \<open>
  Go strings are byte sequences; \<^typ>\<open>string\<close> is a list of bytes. The two regular
  expressions of bigquery.go work on runes, but every rune outside ASCII consists of
  bytes above 127 only, none of which is in \<^verbatim>\<open>[0-9A-Za-z_]\<close>: removing the unsupported
  runes is removing the unsupported bytes.
\<close>

definition bigqueryReservedWords :: "string list" where
  "bigqueryReservedWords =
     [''all'', ''and'', ''any'', ''array'', ''as'', ''asc'', ''assert_rows_modified'',
      ''at'', ''between'', ''by'', ''case'', ''cast'', ''collate'', ''contains'',
      ''create'', ''cross'', ''cube'', ''current'', ''default'', ''define'', ''desc'',
      ''distinct'', ''else'', ''end'', ''enum'', ''escape'', ''except'', ''exclude'',
      ''exists'', ''extract'', ''false'', ''fetch'', ''following'', ''for'', ''from'',
      ''full'', ''group'', ''grouping'', ''groups'', ''hash'', ''having'', ''if'',
      ''ignore'', ''in'', ''inner'', ''intersect'', ''interval'', ''into'', ''is'',
      ''join'', ''lateral'', ''left'', ''like'', ''limit'', ''lookup'', ''merge'',
      ''natural'', ''new'', ''no'', ''not'', ''null'', ''nulls'', ''of'', ''on'',
      ''or'', ''order'', ''outer'', ''over'', ''partition'', ''preceding'', ''proto'',
      ''qualify'', ''range'', ''recursive'', ''respect'', ''right'', ''rollup'',
      ''rows'', ''select'', ''set'', ''some'', ''struct'', ''tablesample'', ''then'',
      ''to'', ''treat'', ''true'', ''unbounded'', ''union'', ''unnest'', ''using'',
      ''when'', ''where'', ''window'', ''with'', ''within'']"

definition bigqueryReservedPrefixes :: "string list" where
  "bigqueryReservedPrefixes =
     [''_table_'', ''_file_'', ''_partition'', ''_row_timestamp'', ''__root__'',
      ''_colidentifier'']"

definition supported_char :: "char \<Rightarrow> bool" where
  "supported_char c =
     ((CHR ''0'' \<le> c \<and> c \<le> CHR ''9'') \<or> (CHR ''A'' \<le> c \<and> c \<le> CHR ''Z'')
      \<or> (CHR ''a'' \<le> c \<and> c \<le> CHR ''z'') \<or> c = CHR ''_'')"

text \<open>\<^verbatim>\<open>bigqueryColumnUnsupportedCharacters.ReplaceAllString(s, "")\<close>\<close>

definition removeUnsupported :: "string \<Rightarrow> string" where
  "removeUnsupported s = filter supported_char s"

text \<open>
  \<^verbatim>\<open>bigqueryColumnUndescores.ReplaceAllString(s, "_")\<close>: every maximal run of two or more
  underscores becomes one underscore.
\<close>

fun collapseUnderscores :: "string \<Rightarrow> string" where
  "collapseUnderscores (a # b # cs) =
     (if a = CHR ''_'' \<and> b = CHR ''_'' then collapseUnderscores (b # cs)
      else a # collapseUnderscores (b # cs))"
| "collapseUnderscores cs = cs"

text \<open>\<^verbatim>\<open>strings.ReplaceAll(s, " ", "_")\<close>\<close>

definition spacesToUnderscores :: "string \<Rightarrow> string" where
  "spacesToUnderscores s = map (\<lambda>c. if c = CHR '' '' then CHR ''_'' else c) s"

text \<open>
  \<^verbatim>\<open>strings.ToLower\<close>; it is only applied to a string of supported bytes, where it maps
  the letters A to Z to a to z and nothing else.
\<close>

definition lower_char :: "char \<Rightarrow> char" where
  "lower_char c =
     (if CHR ''A'' \<le> c \<and> c \<le> CHR ''Z'' then char_of (of_char c + (32::nat)) else c)"

definition ToLower :: "string \<Rightarrow> string" where
  "ToLower s = map lower_char s"

definition HasPrefix :: "string \<Rightarrow> string \<Rightarrow> bool" where
  "HasPrefix s p = (take (length p) s = p)"

text \<open>
  Modelled from the spec: \<^verbatim>\<open>utils.IsNumber\<close> and \<^verbatim>\<open>utils.ShortenString\<close> are helpers
  outside the sources. The spec names their part in the identifier policy:
  "numeric-prefix escape" (a leading digit) and "length clamp" (the first n characters
  are kept).
\<close>

definition IsNumber :: "char \<Rightarrow> bool" where
  "IsNumber c = (CHR ''0'' \<le> c \<and> c \<le> CHR ''9'')"

definition ShortenString :: "string \<Rightarrow> nat \<Rightarrow> string" where
  "ShortenString str n = (if length str \<le> n then str else take n str)"

text \<open>
  \<^verbatim>\<open>tableNameFunc\<close>: the identifier as it is, and whether it needs quoting. The pattern
  \<^verbatim>\<open>sqlUnquotedIdentifierPattern\<close> is declared outside the sources and is a parameter.
\<close>

definition tableNameFunc :: "(string \<Rightarrow> bool) \<Rightarrow> string \<Rightarrow> string \<times> bool" where
  "tableNameFunc sqlUnquotedIdentifierPattern identifier =
     (identifier, \<not> sqlUnquotedIdentifierPattern identifier)"

text \<open>
  Modelled from the spec: \<^verbatim>\<open>TableHelper.TableName\<close>, which \<^verbatim>\<open>bq.TableName\<close> calls, is
  outside the sources. \<^verbatim>\<open>NewBigQuery\<close> builds the helper with
  \<^verbatim>\<open>NewTableHelper(1024, '`')\<close> and sets its \<^verbatim>\<open>tableNameFunc\<close>. Of the spec's identifier
  policy the helper is left with the "length clamp": the table name is the identifier
  as the helper's function adapts it, clamped to the helper's maximal identifier
  length.
\<close>

definition TableHelper_TableName :: "nat \<Rightarrow> (string \<Rightarrow> string \<times> bool) \<Rightarrow> string \<Rightarrow> string" where
  "TableHelper_TableName maxIdentifierLength nameFunc identifier =
     ShortenString (fst (nameFunc identifier)) maxIdentifierLength"

definition BigQuery_TableName :: "(string \<Rightarrow> bool) \<Rightarrow> string \<Rightarrow> string" where
  "BigQuery_TableName sqlUnquotedIdentifierPattern identifier =
     TableHelper_TableName 1024 (tableNameFunc sqlUnquotedIdentifierPattern) identifier"

text \<open>
  \<^verbatim>\<open>columnNameFunc\<close>. The parameter \<open>HashString\<close> stands for
  \<^verbatim>\<open>fmt.Sprintf("%x", utils.HashString(identifier))\<close>, the hexadecimal text of the hash.
  Indexing \<^verbatim>\<open>result[0]\<close> panics on an empty string: the model returns \<open>None\<close> there.
\<close>

definition columnNameFunc :: "(string \<Rightarrow> string) \<Rightarrow> string \<Rightarrow> (string \<times> bool) option" where
  "columnNameFunc HashString identifier =
     (let cleanIdentifier = collapseUnderscores (removeUnsupported identifier)
      in if cleanIdentifier = [] \<or> cleanIdentifier = ''_''
         then Some (''column_'' @ HashString identifier, False)
         else
           (let identifier' = spacesToUnderscores identifier;
                result = removeUnsupported identifier'
            in case result of
                 [] \<Rightarrow> None
               | c # cs \<Rightarrow>
                   (let result' = (if IsNumber c then ''_'' @ result else result);
                        lc = ToLower result'
                    in if lc \<in> set bigqueryReservedWords then Some (result', True)
                       else if list_ex (HasPrefix lc) bigqueryReservedPrefixes
                            then Some (ShortenString (''_'' @ result') 300, False)
                            else Some (ShortenString result' 300, False))))"



section \<open>Tables and GetTableSchema\<close>

text \<open>
  \<^verbatim>\<open>Table\<close> and \<^verbatim>\<open>SQLColumn\<close> are declared outside the sources; the records hold the
  fields that the embedded functions read or write. \<^verbatim>\<open>Columns\<close> is a Go map from column
  name to column: an association list with distinct keys, written with
  \<^const>\<open>AList.update\<close>. \<^verbatim>\<open>PKFields\<close> is a set of names.
\<close>

record SQLColumn =
  Type :: string
  DataType :: DataType
  Override :: bool

record Table =
  Name :: string
  Columns :: "(string \<times> SQLColumn) list"
  PKFields :: "string set"
  PrimaryKeyName :: string

text \<open>\<^verbatim>\<open>Table.SortedColumnNames\<close>: the column names in \<^verbatim>\<open>sort.Strings\<close> order (bytewise).\<close>

definition SortedColumnNames :: "Table \<Rightarrow> string list" where
  "SortedColumnNames t = sort (map fst (Columns t))"

text \<open>
  What the BigQuery client answers to \<^verbatim>\<open>Metadata\<close>: the table's metadata, or an error
  that is a \<^verbatim>\<open>*googleapi.Error\<close> with an HTTP code, or some other error.
\<close>

datatype api_error = GoogleApiError nat string | OtherApiError string

record TableMetadata =
  Schema :: "(string \<times> string) list"
  Labels :: "(string \<times> string) list"

datatype 'e adapter_error =
    GetTableError string 'e
  | GetPrimaryKeysError string 'e
  | LoadError string 'e
  | OnlyLocalFileSupported
  | OnlyFormatSupported

definition isNotFoundErr :: "api_error \<Rightarrow> bool" where
  "isNotFoundErr er = (case er of GoogleApiError code msg \<Rightarrow> code = 404 | OtherApiError msg \<Rightarrow> False)"

text \<open>\<^verbatim>\<open>strings.Split(v, "---")\<close>\<close>

fun splitDashes :: "string \<Rightarrow> string \<Rightarrow> string list" where
  "splitDashes cur (a # b # c # cs) =
     (if a = CHR ''-'' \<and> b = CHR ''-'' \<and> c = CHR ''-'' then cur # splitDashes [] cs
      else splitDashes (cur @ [a]) (b # c # cs))"
| "splitDashes cur (a # cs) = splitDashes (cur @ [a]) cs"
| "splitDashes cur [] = [cur]"

text \<open>
  The loop over \<^verbatim>\<open>meta.Labels\<close> stops at the first label with the managed prefix; the
  labels are taken in the order in which the loop meets them.
\<close>

fun labelsLoop :: "string \<Rightarrow> (string \<times> string) list \<Rightarrow> Table \<Rightarrow> Table" where
  "labelsLoop pkPrefix [] table = table"
| "labelsLoop pkPrefix ((k, v) # rest) table =
     (if HasPrefix k pkPrefix
      then table\<lparr>PKFields := PKFields table \<union> set (splitDashes [] v), PrimaryKeyName := k\<rparr>
      else labelsLoop pkPrefix rest table)"

text \<open>
  \<^verbatim>\<open>BigQuery.GetTableSchema\<close> of bigquery.go. Parameters: the adapter's \<^verbatim>\<open>TableName\<close>
  (the table helper is outside the sources), the constant
  \<^verbatim>\<open>BulkerManagedPkConstraintPrefix\<close>, the zero value of \<^verbatim>\<open>DataType\<close> (what
  \<^verbatim>\<open>dt, _ := bq.GetDataType(...)\<close> leaves in \<^verbatim>\<open>dt\<close> for an unmapped type), and the client's
  answer to \<^verbatim>\<open>Metadata\<close>.
\<close>

definition BigQuery_GetTableSchema ::
  "(string \<Rightarrow> string) \<Rightarrow> string \<Rightarrow> DataType \<Rightarrow> (string \<Rightarrow> api_error + TableMetadata)
     \<Rightarrow> string \<Rightarrow> api_error adapter_error + Table" where
  "BigQuery_GetTableSchema TableName pkPrefix zeroDataType Metadata tblName =
     (let tblName' = TableName tblName;
          table = \<lparr>Name = tblName', Columns = [], PKFields = {}, PrimaryKeyName = []\<rparr>
      in case Metadata tblName' of
           Inl er \<Rightarrow>
             (if isNotFoundErr er then Inr table
              else Inl (GetTableError ''failed to get table'' er))
         | Inr meta \<Rightarrow>
             Inr (labelsLoop pkPrefix (Labels meta)
                   (fold (\<lambda>(fieldName, fieldType) t.
                            t\<lparr>Columns := AList.update fieldName
                                 \<lparr>Type = fieldType,
                                  DataType = (case GetDataType fieldType of
                                                Some dt \<Rightarrow> dt | None \<Rightarrow> zeroDataType),
                                  Override = False\<rparr> (Columns t)\<rparr>)
                      (Schema meta) table)))"

text \<open>The earlier BigQuery adapter (part_002): no name normalization, types only.\<close>

definition BigQuery_GetTableSchema_part_002 ::
  "DataType \<Rightarrow> (string \<Rightarrow> api_error + TableMetadata) \<Rightarrow> string
     \<Rightarrow> api_error adapter_error + Table" where
  "BigQuery_GetTableSchema_part_002 zeroDataType Metadata tblName =
     (let table = \<lparr>Name = tblName, Columns = [], PKFields = {}, PrimaryKeyName = []\<rparr>
      in case Metadata tblName of
           Inl er \<Rightarrow>
             (if isNotFoundErr er then Inr table
              else Inl (GetTableError ''failed to get table'' er))
         | Inr meta \<Rightarrow>
             Inr (fold (\<lambda>(fieldName, fieldType) t.
                          t\<lparr>Columns := AList.update fieldName
                               \<lparr>Type = fieldType, DataType = zeroDataType, Override = False\<rparr>
                               (Columns t)\<rparr>)
                    (Schema meta) table))"

text \<open>
  What a Postgres query answers: the query fails, or it yields rows. Each row either
  scans or fails to scan; after the last row \<^verbatim>\<open>rows.Err()\<close> may report an error.
  A table that does not exist has no row in \<^verbatim>\<open>pg_attribute\<close>: the schema query yields no
  rows and no error.
\<close>

datatype ('e, 'r) query_result = QueryFailed 'e | Rows "('e + 'r) list" "'e option"

fun getTableRows :: "DataType \<Rightarrow> ('e + string \<times> string) list \<Rightarrow> Table
    \<Rightarrow> 'e adapter_error + Table" where
  "getTableRows z [] table = Inr table"
| "getTableRows z (Inl e # rest) table = Inl (GetTableError ''failed to scan result'' e)"
| "getTableRows z (Inr (columnName, columnPostgresType) # rest) table =
     (if columnPostgresType = ''-'' then getTableRows z rest table
      else getTableRows z rest
             (table\<lparr>Columns := AList.update columnName
                       \<lparr>Type = columnPostgresType, DataType = z, Override = False\<rparr>
                       (Columns table)\<rparr>))"

text \<open>
  \<^verbatim>\<open>Postgres.getTable\<close>. The columns are built as \<^verbatim>\<open>SQLColumn{Type: ...}\<close>; the other
  fields keep their zero value (the parameter \<open>zeroDataType\<close>, and \<open>False\<close>).
\<close>

definition getTable ::
  "DataType \<Rightarrow> (string \<Rightarrow> ('e, string \<times> string) query_result) \<Rightarrow> string
     \<Rightarrow> 'e adapter_error + Table" where
  "getTable zeroDataType schemaQuery tblName =
     (let table = \<lparr>Name = tblName, Columns = [], PKFields = {}, PrimaryKeyName = []\<rparr>
      in case schemaQuery tblName of
           QueryFailed e \<Rightarrow> Inl (GetTableError ''failed to get table columns'' e)
         | Rows rs lastErr \<Rightarrow>
             (case getTableRows zeroDataType rs table of
                Inl e \<Rightarrow> Inl e
              | Inr table' \<Rightarrow>
                  (case lastErr of
                     Some e \<Rightarrow> Inl (GetTableError ''failed read last row'' e)
                   | None \<Rightarrow> Inr table')))"

fun getPrimaryKeyRows :: "('e + string \<times> string) list \<Rightarrow> string \<Rightarrow> string list
    \<Rightarrow> 'e adapter_error + (string \<times> string list)" where
  "getPrimaryKeyRows [] primaryKeyName pkFields = Inr (primaryKeyName, pkFields)"
| "getPrimaryKeyRows (Inl e # rest) primaryKeyName pkFields =
     Inl (GetPrimaryKeysError ''failed to scan result'' e)"
| "getPrimaryKeyRows (Inr (constraintName, keyColumn) # rest) primaryKeyName pkFields =
     getPrimaryKeyRows rest
       (if primaryKeyName = [] \<and> constraintName \<noteq> [] then constraintName else primaryKeyName)
       (pkFields @ [keyColumn])"

definition getPrimaryKey ::
  "(string \<Rightarrow> ('e, string \<times> string) query_result) \<Rightarrow> string
     \<Rightarrow> 'e adapter_error + (string \<times> string set)" where
  "getPrimaryKey pkQuery tblName =
     (case pkQuery tblName of
        QueryFailed e \<Rightarrow> Inl (GetPrimaryKeysError ''failed to get primary key'' e)
      | Rows rs lastErr \<Rightarrow>
          (case getPrimaryKeyRows rs [] [] of
             Inl e \<Rightarrow> Inl e
           | Inr (primaryKeyName, pkFields) \<Rightarrow>
               (case lastErr of
                  Some e \<Rightarrow> Inl (GetPrimaryKeysError ''failed read last row'' e)
                | None \<Rightarrow> Inr (primaryKeyName, set pkFields))))"

text \<open>
  \<^verbatim>\<open>Postgres.GetTableSchema\<close>. The two queries are parameters (they already hold the
  configured schema); the warning about a custom primary key only logs.
\<close>

definition Postgres_GetTableSchema ::
  "DataType \<Rightarrow> (string \<Rightarrow> ('e, string \<times> string) query_result)
     \<Rightarrow> (string \<Rightarrow> ('e, string \<times> string) query_result)
     \<Rightarrow> string \<Rightarrow> 'e adapter_error + Table" where
  "Postgres_GetTableSchema zeroDataType schemaQuery pkQuery tblName =
     (case getTable zeroDataType schemaQuery tblName of
        Inl e \<Rightarrow> Inl e
      | Inr table \<Rightarrow>
          (if length (Columns table) = 0 then Inr table
           else case getPrimaryKey pkQuery tblName of
                  Inl e \<Rightarrow> Inl e
                | Inr (primaryKeyName, pkFields) \<Rightarrow>
                    Inr (table\<lparr>PKFields := pkFields, PrimaryKeyName := primaryKeyName\<rparr>)))"

text \<open>A query result that reports a failure of the warehouse.\<close>

definition query_failed :: "('e, 'r) query_result \<Rightarrow> bool" where
  "query_failed q =
     (case q of
        QueryFailed e \<Rightarrow> True
      | Rows rs lastErr \<Rightarrow> list_ex isl rs \<or> lastErr \<noteq> None)"



section \<open>Loading a staging file: Postgres.LoadTable and ClickHouse.LoadTable\<close>

text \<open>
  \<^verbatim>\<open>LoadSource\<close> is declared outside the sources; the functions read its type, its
  format and its path.
\<close>

datatype LoadSourceType = LocalFile | OtherSourceType string

datatype FileFormat = FileFormatCSV | FileFormatNDJSON

record LoadSource =
  SourceType :: LoadSourceType
  Path :: string
  Format :: FileFormat

text \<open>\<^verbatim>\<open>strings.Join\<close>\<close>

fun Join :: "string list \<Rightarrow> string \<Rightarrow> string" where
  "Join [] sep = []"
| "Join [x] sep = x"
| "Join (x # y # ys) sep = x @ sep @ Join (y # ys) sep"

text \<open>An argument bound to the \<^verbatim>\<open>COPY\<close> statement: \<^verbatim>\<open>nil\<close> (SQL NULL) or a string.\<close>

datatype sql_value = SqlNull | SqlString string

definition doubleQuote :: char where
  "doubleQuote = CHR 0x22"

text \<open>
  What is outside \<^verbatim>\<open>Postgres.LoadTable\<close>: preparing the statement, opening the file
  and reading it with \<^verbatim>\<open>encoding/csv\<close> (the results of the successive \<^verbatim>\<open>reader.Read()\<close>
  calls before \<^verbatim>\<open>io.EOF\<close>, each a record or an error), executing the statement with a
  row of arguments, the final execution without arguments, closing the statement,
  and \<^verbatim>\<open>checkErr\<close>.
\<close>

record 'e pg_env =
  pg_prepare :: "string \<Rightarrow> 'e option"
  pg_open :: "string \<Rightarrow> 'e + ('e + string list) list"
  pg_exec :: "sql_value list \<Rightarrow> 'e option"
  pg_flush :: "'e option"
  pg_close :: "'e option"
  pg_checkErr :: "'e \<Rightarrow> 'e"

text \<open>\<^verbatim>\<open>tableNameFunc\<close> of \<^verbatim>\<open>NewPostgres\<close>: the schema and the table name, each quoted.\<close>

definition pg_fullTableName :: "string \<Rightarrow> string \<Rightarrow> string" where
  "pg_fullTableName schema tblName =
     [doubleQuote] @ schema @ [doubleQuote] @ ''.'' @ [doubleQuote] @ tblName @ [doubleQuote]"

definition pgCopyStatement :: "string \<Rightarrow> Table \<Rightarrow> string" where
  "pgCopyStatement schema targetTable =
     (let headerWithQuotes =
            map (\<lambda>name. [doubleQuote] @ name @ [doubleQuote]) (SortedColumnNames targetTable)
      in ''COPY '' @ pg_fullTableName schema (Name targetTable) @ ''(''
           @ Join headerWithQuotes '', '' @ '') FROM STDIN'')"

text \<open>
  The loop over the records: a read error is returned as it is, an execution error
  through \<^verbatim>\<open>checkErr\<close>. The rows that were executed are collected.
\<close>

fun copyRecords :: "'e pg_env \<Rightarrow> ('e + string list) list \<Rightarrow> sql_value list list
    \<Rightarrow> 'e option \<times> sql_value list list" where
  "copyRecords env [] sent = (None, sent)"
| "copyRecords env (Inl e # rest) sent = (Some e, sent)"
| "copyRecords env (Inr record # rest) sent =
     (let args = map (\<lambda>v. if v = [CHR 0x5C, CHR ''N''] then SqlNull else SqlString v) record
      in case pg_exec env args of
           Some e \<Rightarrow> (Some (pg_checkErr env e), sent)
         | None \<Rightarrow> copyRecords env rest (sent @ [args]))"

text \<open>
  \<^verbatim>\<open>Postgres.LoadTable\<close> returns the error, the statement it prepared and the rows it
  executed. The first \<^verbatim>\<open>reader.Read()\<close> is the header: its result is dropped whatever
  it is. The deferred function wraps every error after the two format checks.
\<close>

definition Postgres_LoadTable ::
  "'e pg_env \<Rightarrow> string \<Rightarrow> Table \<Rightarrow> LoadSource
     \<Rightarrow> 'e adapter_error option \<times> string option \<times> sql_value list list" where
  "Postgres_LoadTable env schema targetTable loadSource =
     (if SourceType loadSource \<noteq> LocalFile then (Some OnlyLocalFileSupported, None, [])
      else if Format loadSource \<noteq> FileFormatCSV then (Some OnlyFormatSupported, None, [])
      else
        (let copyStatement = pgCopyStatement schema targetTable;
             failed = (\<lambda>e. Some (LoadError ''failed to load table'' e))
         in case pg_prepare env copyStatement of
              Some e \<Rightarrow> (failed e, None, [])
            | None \<Rightarrow>
                (case pg_open env (Path loadSource) of
                   Inl e \<Rightarrow> (failed e, Some copyStatement, [])
                 | Inr reads \<Rightarrow>
                     (case copyRecords env (drop 1 reads) [] of
                        (Some e, sent) \<Rightarrow> (failed e, Some copyStatement, sent)
                      | (None, sent) \<Rightarrow>
                          (case pg_flush env of
                             Some e \<Rightarrow> (failed (pg_checkErr env e), Some copyStatement, sent)
                           | None \<Rightarrow>
                               (case pg_close env of
                                  Some e \<Rightarrow>
                                    (failed (pg_checkErr env e), Some copyStatement, sent)
                                | None \<Rightarrow> (None, Some copyStatement, sent)))))))"

text \<open>
  \<^verbatim>\<open>bufio.Scanner\<close> with the default split function \<^verbatim>\<open>ScanLines\<close>, as the Go standard
  library documents it: the tokens are the lines without their end-of-line marker (a
  trailing carriage return is dropped too); a last line without a newline is a token
  unless it is empty; and a line that does not fit the buffer of
  \<^verbatim>\<open>MaxScanTokenSize = 64 * 1024\<close> bytes stops the scan with \<^verbatim>\<open>ErrTooLong\<close>. \<^verbatim>\<open>Scan\<close> then
  returns false exactly as at the end of the input; only \<^verbatim>\<open>Err()\<close> tells the two apart.
  The model returns the tokens and whether the scan stopped on \<^verbatim>\<open>ErrTooLong\<close>.
\<close>

definition MaxScanTokenSize :: nat where
  "MaxScanTokenSize = 64 * 1024"

definition dropCR :: "string \<Rightarrow> string" where
  "dropCR line = (if line \<noteq> [] \<and> last line = CHR 0x0D then butlast line else line)"

fun scanLines :: "string \<Rightarrow> string \<Rightarrow> string list \<times> bool" where
  "scanLines [] cur =
     (if cur = [] then ([], False)
      else if length cur \<ge> MaxScanTokenSize then ([], True)
      else ([dropCR cur], False))"
| "scanLines (c # cs) cur =
     (if c = CHR 0x0A
      then (if length cur \<ge> MaxScanTokenSize then ([], True)
            else (let (tokens, tooLong) = scanLines cs [] in (dropCR cur # tokens, tooLong)))
      else scanLines cs (cur @ [c]))"

text \<open>
  The database as \<^verbatim>\<open>database/sql\<close> presents it: statements executed on a transaction
  are pending until \<^verbatim>\<open>Commit\<close> makes them part of the table; \<^verbatim>\<open>Rollback\<close> discards them.
\<close>

record 'a db =
  committed :: "'a list list"
  pending :: "'a list list"

definition tx_exec :: "'a list \<Rightarrow> 'a db \<Rightarrow> 'a db" where
  "tx_exec row d = d\<lparr>pending := pending d @ [row]\<rparr>"

definition tx_rollback :: "'a db \<Rightarrow> 'a db" where
  "tx_rollback d = d\<lparr>pending := []\<rparr>"

definition tx_commit :: "'a db \<Rightarrow> 'a db" where
  "tx_commit d = d\<lparr>committed := committed d @ pending d, pending := []\<rparr>"

text \<open>
  What is outside \<^verbatim>\<open>ClickHouse.LoadTable\<close>: beginning the transaction, preparing the
  statement, opening the file, decoding a line as a JSON object, \<^verbatim>\<open>convertType\<close> (it
  rests on \<^verbatim>\<open>types.ReformatValue\<close> and on Go's dynamic types; here it is a parameter, as
  only its failing matters), executing the statement, committing, \<^verbatim>\<open>checkErr\<close>, and the
  helpers \<^verbatim>\<open>columnName\<close> and \<^verbatim>\<open>parameterPlaceholder\<close> that build the statement text.
\<close>

record ('v, 'a, 'e) ch_env =
  ch_beginTx :: "'e option"
  ch_prepare :: "string \<Rightarrow> 'e option"
  ch_open :: "string \<Rightarrow> 'e + string"
  ch_decode :: "string \<Rightarrow> 'e + (string \<rightharpoonup> 'v)"
  ch_convertType :: "'v option \<Rightarrow> SQLColumn \<Rightarrow> 'e + 'a"
  ch_exec :: "'a list \<Rightarrow> 'e option"
  ch_commit :: "'a list list \<Rightarrow> 'e option"
  ch_checkErr :: "'e \<Rightarrow> 'e"
  ch_columnName :: "string \<Rightarrow> string"
  ch_parameterPlaceholder :: "nat \<Rightarrow> string \<Rightarrow> string"

text \<open>
  \<^verbatim>\<open>tableNameFunc\<close> of \<^verbatim>\<open>NewClickHouse\<close> returns the table name as it is; the adapter's
  \<^verbatim>\<open>fullTableName\<close> is that function, and \<^verbatim>\<open>fullDistTableName\<close> applies it to the name
  with \<^verbatim>\<open>chDistributedPrefix\<close> in front.
\<close>

definition ch_tableNameFunc :: "string \<Rightarrow> string" where
  "ch_tableNameFunc tblName = tblName"

definition fullDistTableName :: "string \<Rightarrow> string" where
  "fullDistTableName tblName = ch_tableNameFunc (''dist_'' @ tblName)"

definition chTypecastFunc :: "string \<Rightarrow> SQLColumn \<Rightarrow> string" where
  "chTypecastFunc placeholder column =
     (if Override column then ''cast('' @ placeholder @ '', '' @ [CHR 0x27] @ Type column
                              @ [CHR 0x27] @ '')''
      else placeholder)"

text \<open>\<^verbatim>\<open>targetTable.Columns[name]\<close>: the column, or the zero column for a missing key.\<close>

definition columnOf :: "DataType \<Rightarrow> Table \<Rightarrow> string \<Rightarrow> SQLColumn" where
  "columnOf zeroDataType t name =
     (case map_of (Columns t) name of
        Some column \<Rightarrow> column
      | None \<Rightarrow> \<lparr>Type = [], DataType = zeroDataType, Override = False\<rparr>)"

definition chLoadStatement :: "('v, 'a, 'e) ch_env \<Rightarrow> DataType \<Rightarrow> Table \<Rightarrow> string" where
  "chLoadStatement env z targetTable =
     (let columns = SortedColumnNames targetTable;
          columnNames = map (ch_columnName env) columns;
          placeHolders = map (\<lambda>(i, name). chTypecastFunc
                               (ch_parameterPlaceholder env i (ch_columnName env name))
                               (columnOf z targetTable name))
                           (enumerate 0 columns)
      in ''INSERT INTO '' @ ch_tableNameFunc (Name targetTable) @ '' (''
           @ Join columnNames '', '' @ '') VALUES ('' @ Join placeHolders '', '' @ '')'')"

text \<open>The inner loop: the arguments of one row, or the first conversion error.\<close>

fun convertArgs :: "('v, 'a, 'e) ch_env \<Rightarrow> DataType \<Rightarrow> Table \<Rightarrow> (string \<rightharpoonup> 'v) \<Rightarrow> string list
    \<Rightarrow> 'e + 'a list" where
  "convertArgs env z t object [] = Inr []"
| "convertArgs env z t object (v # columns) =
     (case ch_convertType env (object v) (columnOf z t v) of
        Inl e \<Rightarrow> Inl e
      | Inr l \<Rightarrow> (case convertArgs env z t object columns of
                    Inl e \<Rightarrow> Inl e
                  | Inr args \<Rightarrow> Inr (l # args)))"

text \<open>
  The loop over the scanned lines: decode, convert, execute on the transaction; the
  first error ends the loop and is returned.
\<close>

fun loadLines :: "('v, 'a, 'e) ch_env \<Rightarrow> DataType \<Rightarrow> Table \<Rightarrow> string list \<Rightarrow> string list
    \<Rightarrow> 'a db \<Rightarrow> 'e option \<times> 'a db" where
  "loadLines env z t columns [] d = (None, d)"
| "loadLines env z t columns (line # rest) d =
     (case ch_decode env line of
        Inl e \<Rightarrow> (Some e, d)
      | Inr object \<Rightarrow>
          (case convertArgs env z t object columns of
             Inl e \<Rightarrow> (Some e, d)
           | Inr args \<Rightarrow>
               (case ch_exec env args of
                  Some e \<Rightarrow> (Some (ch_checkErr env e), d)
                | None \<Rightarrow> loadLines env z t columns rest (tx_exec args d))))"

text \<open>
  How a call of \<^verbatim>\<open>ClickHouse.LoadTable\<close> ends: it returns (nil or an error), or it
  panics. When \<^verbatim>\<open>BeginTx\<close> fails, the error is wrapped but not returned, and the function
  goes on with a nil \<^verbatim>\<open>*sql.Tx\<close>: \<^verbatim>\<open>tx.PrepareContext\<close> dereferences it and panics (and so
  does \<^verbatim>\<open>tx.Rollback\<close> in the deferred function). Nothing has touched the database then.
\<close>

datatype 'e outcome = Returned "'e adapter_error option" | Panicked

text \<open>
  The deferred function: on an error the transaction is rolled back and the error is
  wrapped. It is registered after the two format checks and after \<^verbatim>\<open>BeginTx\<close>.
\<close>

definition chDeferred :: "'e option \<Rightarrow> 'a db \<Rightarrow> 'e outcome \<times> 'a db" where
  "chDeferred er d =
     (case er of
        Some e \<Rightarrow> (Returned (Some (LoadError ''failed to load table'' e)), tx_rollback d)
      | None \<Rightarrow> (Returned None, d))"

text \<open>
  \<^verbatim>\<open>ClickHouse.LoadTable\<close>. The loop runs over the tokens that the scanner delivers; the
  source never calls \<^verbatim>\<open>scanner.Err()\<close>, so the flag of \<^const>\<open>scanLines\<close> is not read. A
  failed \<^verbatim>\<open>Commit\<close> leaves the pending rows out of the table.
\<close>

definition ClickHouse_LoadTable ::
  "('v, 'a, 'e) ch_env \<Rightarrow> FileFormat \<Rightarrow> DataType \<Rightarrow> 'a db \<Rightarrow> Table \<Rightarrow> LoadSource
     \<Rightarrow> 'e outcome \<times> 'a db" where
  "ClickHouse_LoadTable env batchFileFormat z d targetTable loadSource =
     (if SourceType loadSource \<noteq> LocalFile then (Returned (Some OnlyLocalFileSupported), d)
      else if Format loadSource \<noteq> batchFileFormat then (Returned (Some OnlyFormatSupported), d)
      else case ch_beginTx env of
             Some e \<Rightarrow> (Panicked, d)
           | None \<Rightarrow>
               (let columns = SortedColumnNames targetTable;
                    copyStatement = chLoadStatement env z targetTable
                in case ch_prepare env copyStatement of
                     Some e \<Rightarrow> chDeferred (Some e) d
                   | None \<Rightarrow>
                       (case ch_open env (Path loadSource) of
                          Inl e \<Rightarrow> chDeferred (Some e) d
                        | Inr file \<Rightarrow>
                            (case loadLines env z targetTable columns
                                    (fst (scanLines file [])) d of
                               (Some e, d') \<Rightarrow> chDeferred (Some e) d'
                             | (None, d') \<Rightarrow>
                                 (case ch_commit env (pending d') of
                                    Some e \<Rightarrow> chDeferred (Some e) d'
                                  | None \<Rightarrow> chDeferred None (tx_commit d'))))))"



section \<open>ReplaceTable\<close>

text \<open>
  The warehouse, as far as \<^verbatim>\<open>ReplaceTable\<close> is concerned: the tables by name, each with
  its contents, and the states that the warehouse went through, one per statement
  or job that succeeded (what a reader could observe between two of them).
\<close>

record 'c warehouse =
  tables :: "string \<rightharpoonup> 'c"
  history :: "(string \<rightharpoonup> 'c) list"

definition wh_set :: "(string \<rightharpoonup> 'c) \<Rightarrow> 'c warehouse \<Rightarrow> 'c warehouse" where
  "wh_set ts w = \<lparr>tables = ts, history = history w @ [ts]\<rparr>"

datatype sql_error = ErrTableNotExist | ErrTableAlreadyExists | ErrOtherSql string

datatype ch_statement =
    ExchangeTables string string
  | RenameTable string string
  | DropTableStatement bool string

text \<open>
  The three ClickHouse statements, as ClickHouse documents them:
  \<^verbatim>\<open>EXCHANGE TABLES a AND b\<close> swaps two existing tables in one step and fails when one
  of them does not exist; \<^verbatim>\<open>RENAME TABLE a TO b\<close> needs \<open>a\<close> to exist and \<open>b\<close> not to;
  \<^verbatim>\<open>DROP TABLE [IF EXISTS] a\<close>. The parameter \<open>fails\<close> is any other failure of a
  statement (connection, permissions, ...).
\<close>

definition ch_ExecContext ::
  "(ch_statement \<Rightarrow> sql_error option) \<Rightarrow> ch_statement \<Rightarrow> 'c warehouse
     \<Rightarrow> sql_error + 'c warehouse" where
  "ch_ExecContext fails statement w =
     (case fails statement of
        Some e \<Rightarrow> Inl e
      | None \<Rightarrow>
          (case statement of
             ExchangeTables a b \<Rightarrow>
               (case (tables w a, tables w b) of
                  (Some ca, Some cb) \<Rightarrow> Inr (wh_set ((tables w)(a \<mapsto> cb, b \<mapsto> ca)) w)
                | _ \<Rightarrow> Inl ErrTableNotExist)
           | RenameTable a b \<Rightarrow>
               (case tables w a of
                  None \<Rightarrow> Inl ErrTableNotExist
                | Some ca \<Rightarrow>
                    (if tables w b \<noteq> None then Inl ErrTableAlreadyExists
                     else Inr (wh_set ((tables w)(a := None, b \<mapsto> ca)) w)))
           | DropTableStatement ifExists a \<Rightarrow>
               (if tables w a = None
                then (if ifExists then Inr (wh_set (tables w) w) else Inl ErrTableNotExist)
                else Inr (wh_set ((tables w)(a := None)) w))))"

datatype 'e replace_error =
    ErrRenaming string 'e
  | ErrRenamingDistributed string 'e
  | ErrReplacing string 'e
  | ErrReplacingDistributed string 'e
  | DropError string 'e
  | CopyError "'e replace_error"
  | JobError string 'e
  | ApiError 'e

definition ch_dropTable ::
  "(ch_statement \<Rightarrow> sql_error option) \<Rightarrow> 'c warehouse \<Rightarrow> string \<Rightarrow> bool
     \<Rightarrow> sql_error replace_error option \<times> 'c warehouse" where
  "ch_dropTable fails w fullName ifExists =
     (case ch_ExecContext fails (DropTableStatement ifExists fullName) w of
        Inl e \<Rightarrow> (Some (DropError fullName e), w)
      | Inr w' \<Rightarrow> (None, w'))"

definition ClickHouse_DropTable ::
  "(ch_statement \<Rightarrow> sql_error option) \<Rightarrow> string \<Rightarrow> 'c warehouse \<Rightarrow> string \<Rightarrow> bool
     \<Rightarrow> sql_error replace_error option \<times> 'c warehouse" where
  "ClickHouse_DropTable fails cluster w tblName ifExists =
     (case ch_dropTable fails w (ch_tableNameFunc tblName) ifExists of
        (Some e, w') \<Rightarrow> (Some e, w')
      | (None, w') \<Rightarrow>
          (if cluster \<noteq> [] then ch_dropTable fails w' (fullDistTableName tblName) True
           else (None, w')))"

text \<open>
  \<^verbatim>\<open>ClickHouse.ReplaceTable\<close>. \<^verbatim>\<open>checkNotExistErr(err) == ErrTableNotExist\<close> is the test
  whether the driver's error says that a table does not exist.
\<close>

definition ClickHouse_ReplaceTable ::
  "(ch_statement \<Rightarrow> sql_error option) \<Rightarrow> string \<Rightarrow> 'c warehouse \<Rightarrow> string \<Rightarrow> string \<Rightarrow> bool
     \<Rightarrow> sql_error replace_error option \<times> 'c warehouse" where
  "ClickHouse_ReplaceTable fails cluster w originalTable replacementTable dropOldTable =
     (case ch_ExecContext fails
             (ExchangeTables (ch_tableNameFunc originalTable) (ch_tableNameFunc replacementTable)) w of
        Inl er \<Rightarrow>
          (if er = ErrTableNotExist then
             (case ch_ExecContext fails
                     (RenameTable (ch_tableNameFunc replacementTable)
                        (ch_tableNameFunc originalTable)) w of
                Inl e \<Rightarrow> (Some (ErrRenaming replacementTable e), w)
              | Inr w1 \<Rightarrow>
                  (if cluster \<noteq> [] then
                     (case ch_ExecContext fails
                             (RenameTable (fullDistTableName replacementTable)
                                (fullDistTableName originalTable)) w1 of
                        Inl e \<Rightarrow> (Some (ErrRenamingDistributed originalTable e), w1)
                      | Inr w2 \<Rightarrow> (None, w2))
                   else (None, w1)))
           else (Some (ErrReplacing originalTable er), w))
      | Inr w1 \<Rightarrow>
          (case (if cluster \<noteq> [] then
                   ch_ExecContext fails
                     (ExchangeTables (fullDistTableName originalTable)
                        (fullDistTableName replacementTable)) w1
                 else Inr w1) of
             Inl e \<Rightarrow> (Some (ErrReplacingDistributed originalTable e), w1)
           | Inr w2 \<Rightarrow>
               (if dropOldTable then ClickHouse_DropTable fails cluster w2 replacementTable True
                else (None, w2))))"

text \<open>
  The BigQuery requests of \<^verbatim>\<open>ReplaceTable\<close> and \<^verbatim>\<open>DropTable\<close>, as BigQuery documents
  them: a copy job with \<^verbatim>\<open>WriteTruncate\<close> (and \<^verbatim>\<open>CreateIfNeeded\<close>, which is also the
  default) replaces the contents of the destination by those of the source in one
  step, creating the destination when it is missing, and fails with 404 when the
  source does not exist; \<^verbatim>\<open>Metadata\<close> and \<^verbatim>\<open>Delete\<close> fail with 404 on a missing table.
  The parameter \<open>fails\<close> is any other failure of a request.
\<close>

datatype bq_request = CopyJob string string | GetMetadata string | DeleteTable string

definition bq_request ::
  "(bq_request \<Rightarrow> api_error option) \<Rightarrow> bq_request \<Rightarrow> 'c warehouse \<Rightarrow> api_error + 'c warehouse" where
  "bq_request fails request w =
     (case fails request of
        Some e \<Rightarrow> Inl e
      | None \<Rightarrow>
          (case request of
             CopyJob target source \<Rightarrow>
               (case tables w source of
                  None \<Rightarrow> Inl (GoogleApiError 404 ''Not found: Table'')
                | Some c \<Rightarrow> Inr (wh_set ((tables w)(target \<mapsto> c)) w))
           | GetMetadata a \<Rightarrow>
               (if tables w a = None then Inl (GoogleApiError 404 ''Not found: Table'')
                else Inr w)
           | DeleteTable a \<Rightarrow>
               (if tables w a = None then Inl (GoogleApiError 404 ''Not found: Table'')
                else Inr (wh_set ((tables w)(a := None)) w))))"

text \<open>
  \<^verbatim>\<open>BigQuery.DropTable\<close> of bigquery.go: a 404 from \<^verbatim>\<open>Metadata\<close> ends the call without
  error when \<^verbatim>\<open>ifExists\<close> is set; otherwise the table is deleted.
\<close>

definition BigQuery_DropTable ::
  "(string \<Rightarrow> string) \<Rightarrow> (bq_request \<Rightarrow> api_error option) \<Rightarrow> 'c warehouse \<Rightarrow> string \<Rightarrow> bool
     \<Rightarrow> api_error replace_error option \<times> 'c warehouse" where
  "BigQuery_DropTable TableName fails w tblName ifExists =
     (let tblName' = TableName tblName;
          notFound = (case bq_request fails (GetMetadata tblName') w of
                        Inl er \<Rightarrow> (case er of GoogleApiError code msg \<Rightarrow> code = 404
                                   | OtherApiError msg \<Rightarrow> False)
                      | Inr w' \<Rightarrow> False)
      in if notFound \<and> ifExists then (None, w)
         else case bq_request fails (DeleteTable tblName') w of
                Inl e \<Rightarrow> (Some (DropError ''failed to drop table'' e), w)
              | Inr w' \<Rightarrow> (None, w'))"

text \<open>
  \<^verbatim>\<open>RunJob\<close> of bigquery.go runs a job and waits for it. When \<^verbatim>\<open>Run\<close> fails, the job
  could not be started and is \<^verbatim>\<open>nil\<close>: building the error message calls \<^verbatim>\<open>job.ID()\<close>
  on it, and the call panics (\<open>None\<close>). A failure of \<^verbatim>\<open>Wait\<close> or of the job's status is
  returned as a new error whose text carries the job's description. The parameter
  \<open>starts\<close> is the error of \<^verbatim>\<open>Run\<close>; \<open>fails\<close> is any other failure, as above.
\<close>

definition RunJob ::
  "(bq_request \<Rightarrow> api_error option) \<Rightarrow> (bq_request \<Rightarrow> api_error option) \<Rightarrow> bq_request
     \<Rightarrow> string \<Rightarrow> 'c warehouse \<Rightarrow> (api_error replace_error + 'c warehouse) option" where
  "RunJob starts fails runner jobDescription w =
     (case starts runner of
        Some e \<Rightarrow> None
      | None \<Rightarrow>
          (case bq_request fails runner w of
             Inl e \<Rightarrow> Some (Inl (JobError jobDescription e))
           | Inr w' \<Rightarrow> Some (Inr w')))"

text \<open>
  \<^verbatim>\<open>BigQuery.ReplaceTable\<close> of bigquery.go: one copy job from the replacement to the
  target, run by \<^verbatim>\<open>RunJob\<close>, then the replacement is dropped when \<^verbatim>\<open>dropOldTable\<close> is
  set. The deferred function wraps every error that is returned; a panic of
  \<^verbatim>\<open>RunJob\<close> passes through it (\<open>None\<close>).
\<close>

definition BigQuery_ReplaceTable ::
  "(string \<Rightarrow> string) \<Rightarrow> (bq_request \<Rightarrow> api_error option) \<Rightarrow> (bq_request \<Rightarrow> api_error option)
     \<Rightarrow> 'c warehouse \<Rightarrow> string \<Rightarrow> string \<Rightarrow> bool
     \<Rightarrow> (api_error replace_error option \<times> 'c warehouse) option" where
  "BigQuery_ReplaceTable TableName starts fails w targetTableName replacementName dropOldTable =
     (let targetTableName' = TableName targetTableName;
          replacementTableName = TableName replacementName;
          jobDescription = ''replace table '' @ [CHR 0x27] @ targetTableName' @ [CHR 0x27]
                             @ '' with '' @ [CHR 0x27] @ replacementTableName @ [CHR 0x27]
      in case RunJob starts fails (CopyJob targetTableName' replacementTableName)
                jobDescription w of
           None \<Rightarrow> None
         | Some (Inl e) \<Rightarrow> Some (Some (CopyError e), w)
         | Some (Inr w1) \<Rightarrow>
             Some (if dropOldTable then
                     (case BigQuery_DropTable TableName fails w1 replacementTableName False of
                        (Some e, w2) \<Rightarrow> (Some (CopyError e), w2)
                      | (None, w2) \<Rightarrow> (None, w2))
                   else (None, w1)))"

text \<open>
  The earlier BigQuery adapter (part_002): the same copy job on the names as given,
  run and awaited in place, every failure of it (of \<^verbatim>\<open>Run\<close> too) returned as an error;
  its \<^verbatim>\<open>DropTable\<close> deletes the table without looking at \<^verbatim>\<open>ifExists\<close>.
\<close>

definition BigQuery_ReplaceTable_part_002 ::
  "(bq_request \<Rightarrow> api_error option) \<Rightarrow> 'c warehouse
     \<Rightarrow> string \<Rightarrow> string \<Rightarrow> bool \<Rightarrow> api_error replace_error option \<times> 'c warehouse" where
  "BigQuery_ReplaceTable_part_002 fails w originalTable replacementTable dropOldTable =
     (case bq_request fails (CopyJob originalTable replacementTable) w of
        Inl e \<Rightarrow> (Some (CopyError (ApiError e)), w)
      | Inr w1 \<Rightarrow>
          (if dropOldTable then
             (case bq_request fails (DeleteTable replacementTable) w1 of
                Inl e \<Rightarrow> (Some (CopyError (DropError ''failed to drop table'' e)), w1)
              | Inr w2 \<Rightarrow> (None, w2))
           else (None, w1)))"

text \<open>
  What a reader of \<open>target\<close> can observe during a call that takes the warehouse from
  \<open>w\<close> to \<open>w'\<close>: in every state the call went through, \<open>target\<close> holds what it held
  before the call or the new contents \<open>c\<close>, nothing in between.
\<close>

definition single_cutover :: "'c warehouse \<Rightarrow> 'c warehouse \<Rightarrow> string \<Rightarrow> 'c \<Rightarrow> bool" where
  "single_cutover w w' target c =
     list_all (\<lambda>ts. ts target = tables w target \<or> ts target = Some c)
       (drop (length (history w)) (history w'))"



section \<open>Concrete instances\<close>

text \<open>Small concrete values at which the theorems below are instantiated.\<close>

definition example_engine :: "(nat, unit, unit, string) engine" where
  "example_engine =
     \<lparr>ProcessEvents = (\<lambda>tn objs. Inr ((), objs)),
      OverrideTypes = (\<lambda>h cts. h),
      MapTableSchema = (\<lambda>h. ())\<rparr>"

definition new_stream :: "string AbstractSQLStream" where
  "new_stream =
     \<lparr>id' = ''s1'', mode = Batch, options = emptyStreamOptions, tableName = ''events'',
      merge = False,
      state = \<lparr>Status = Active, ProcessedRows = 0, SuccessfulRows = 0, ErrorRowIndex = 0,
               LastError = None\<rparr>,
      inited = False\<rparr>"

definition completed_stream :: "string AbstractSQLStream" where
  "completed_stream = Complete new_stream None"

definition example_constructors :: "(string AbstractSQLStream, string) constructors" where
  "example_constructors =
     \<lparr>newAutoCommitStream = (\<lambda>i tn os. newAbstractStream i tn Stream os),
      newTransactionalStream = (\<lambda>i tn os. newAbstractStream i tn Batch os),
      newReplaceTableStream = (\<lambda>i tn os. newAbstractStream i tn ReplaceTable os),
      newReplacePartitionStream = (\<lambda>i tn os. newAbstractStream i tn ReplacePartition os)\<rparr>"

definition example_metadata :: "string \<Rightarrow> api_error + TableMetadata" where
  "example_metadata tn =
     (if tn = ''events''
      then Inr \<lparr>Schema = [(''id'', ''INTEGER''), (''name'', ''STRING'')], Labels = []\<rparr>
      else if tn = ''broken'' then Inl (GoogleApiError 500 ''backend error'')
      else Inl (GoogleApiError 404 ''not found''))"

definition example_schema_query :: "string \<Rightarrow> (string, string \<times> string) query_result" where
  "example_schema_query tn =
     (if tn = ''events'' then Rows [Inr (''id'', ''bigint''), Inr (''name'', ''text'')] None
      else if tn = ''broken'' then QueryFailed ''connection lost''
      else Rows [] None)"

definition example_pk_query :: "string \<Rightarrow> (string, string \<times> string) query_result" where
  "example_pk_query tn = Rows [] None"

definition example_table :: Table where
  "example_table =
     \<lparr>Name = ''events'',
      Columns = [(''name'', \<lparr>Type = ''text'', DataType = STRING, Override = False\<rparr>),
                 (''id'', \<lparr>Type = ''bigint'', DataType = INT64, Override = False\<rparr>)],
      PKFields = {}, PrimaryKeyName = []\<rparr>"

definition example_pg_env :: "string pg_env" where
  "example_pg_env =
     \<lparr>pg_prepare = (\<lambda>statement. None),
      pg_open = (\<lambda>path. if path = ''/tmp/bulker_events''
                         then Inr [Inr [''id'', ''name''], Inr [''1'', [CHR 0x5C, CHR ''N'']],
                                   Inr [''2'', ''bob''], Inr [''3'', []],
                                   Inr [''4'', [CHR 0x5C, CHR ''n'']]]
                         else Inl ''no such file''),
      pg_exec = (\<lambda>args. None),
      pg_flush = None,
      pg_close = None,
      pg_checkErr = (\<lambda>e. e)\<rparr>"

definition example_csv_source :: LoadSource where
  "example_csv_source =
     \<lparr>SourceType = LocalFile, Path = ''/tmp/bulker_events'', Format = FileFormatCSV\<rparr>"

definition example_ch_table :: Table where
  "example_ch_table =
     \<lparr>Name = ''events'',
      Columns = [(''name'', \<lparr>Type = ''String'', DataType = STRING, Override = False\<rparr>),
                 (''id'', \<lparr>Type = ''Int64'', DataType = INT64, Override = False\<rparr>)],
      PKFields = {}, PrimaryKeyName = []\<rparr>"

definition example_file :: string where
  "example_file =
     ''{}'' @ [CHR 0x0A] @ ''{'' @ replicate 70000 (CHR '' '') @ ''}'' @ [CHR 0x0A]
       @ ''{}'' @ [CHR 0x0A]"

definition example_ch_env :: "(string, string option, string) ch_env" where
  "example_ch_env =
     \<lparr>ch_beginTx = None,
      ch_prepare = (\<lambda>statement. None),
      ch_open = (\<lambda>path. Inr example_file),
      ch_decode = (\<lambda>line. Inr Map.empty),
      ch_convertType = (\<lambda>v column. Inr v),
      ch_exec = (\<lambda>args. None),
      ch_commit = (\<lambda>rows. None),
      ch_checkErr = (\<lambda>e. e),
      ch_columnName = (\<lambda>name. name),
      ch_parameterPlaceholder = (\<lambda>i name. ''?'')\<rparr>"

definition example_json_source :: LoadSource where
  "example_json_source =
     \<lparr>SourceType = LocalFile, Path = ''/tmp/bulker_events'', Format = FileFormatNDJSON\<rparr>"

definition example_warehouse :: "nat list warehouse" where
  "example_warehouse =
     \<lparr>tables = [''t'' \<mapsto> [1, 2, 3], ''tmp'' \<mapsto> [9, 10]], history = []\<rparr>"


chapter \<open>Theorems\<close>

section \<open>Type tables\<close>

lemma bigquery_init_eval:
  "bigquery_init =
     ([STRING \<mapsto> StringFieldType, INT64 \<mapsto> IntegerFieldType, FLOAT64 \<mapsto> FloatFieldType,
       TIMESTAMP \<mapsto> TimestampFieldType, BOOL \<mapsto> BooleanFieldType, JSON \<mapsto> JSONFieldType,
       UNKNOWN \<mapsto> StringFieldType],
      [StringFieldType \<mapsto> STRING, IntegerFieldType \<mapsto> INT64, FloatFieldType \<mapsto> FLOAT64,
       TimestampFieldType \<mapsto> TIMESTAMP, BooleanFieldType \<mapsto> BOOL, JSONFieldType \<mapsto> JSON])"
  by (simp add: bigquery_init_def bigqueryTypes_def)

lemma GetDataType_never_UNKNOWN: "GetDataType sqlType \<noteq> Some UNKNOWN"
  by (simp add: GetDataType_def bigqueryReverseTypeMapping_def bigquery_init_eval)

text \<open>
  Claim C3. In every adapter's DataType-to-SQL-type table, \<^verbatim>\<open>UNKNOWN\<close> maps to the
  dialect's string type, the same type \<^verbatim>\<open>STRING\<close> maps to: ClickHouse \<^verbatim>\<open>String\<close>,
  Postgres \<^verbatim>\<open>text\<close>, BigQuery \<^verbatim>\<open>StringFieldType\<close> (both BigQuery tables). A column
  created for a field that is still \<^verbatim>\<open>UNKNOWN\<close> therefore gets the string type.
\<close>

theorem C3_unknown_maps_to_string:
  "SchemaToClickhouse UNKNOWN = Some ''String''
   \<and> SchemaToClickhouse UNKNOWN = SchemaToClickhouse STRING
   \<and> SchemaToPostgres UNKNOWN = Some ''text''
   \<and> SchemaToPostgres UNKNOWN = SchemaToPostgres STRING
   \<and> GetSQLType UNKNOWN = Some StringFieldType
   \<and> GetSQLType UNKNOWN = GetSQLType STRING
   \<and> SchemaToBigQueryString UNKNOWN = Some StringFieldType
   \<and> SchemaToBigQueryString UNKNOWN = SchemaToBigQueryString STRING"
  by (simp add: SchemaToClickhouse_def SchemaToPostgres_def SchemaToBigQueryString_def
      GetSQLType_def bigqueryTypeMapping_def bigquery_init_eval)


section \<open>Stream state\<close>

lemma newAbstractStream_new_stream:
  "newAbstractStream ''s1'' ''events'' Batch [] = Inr new_stream"
  by (simp add: newAbstractStream_def new_stream_def emptyStreamOptions_def)

lemma preprocess_inactive:
  "Status (state ps) \<noteq> Active
   \<Longrightarrow> preprocess eng ps object = (Inl (ErrStreamNotActive (Status (state ps))), ps)"
  by (simp add: preprocess_def)

lemma Consume_inactive:
  "Status (state ps) \<noteq> Active
   \<Longrightarrow> Consume eng ps object written = (Some (ErrStreamNotActive (Status (state ps))), ps)"
  by (simp add: Consume_def preprocess_inactive)

lemma call_not_Active:
  "Status (state ps) \<noteq> Active \<Longrightarrow> Status (state (call eng ps c)) \<noteq> Active"
  by (cases c) (auto simp: Consume_inactive Complete_def postComplete_def Abort_def
      split: option.splits)

lemma calls_not_Active:
  "Status (state ps) \<noteq> Active \<Longrightarrow> Status (state (calls eng ps cs)) \<noteq> Active"
  unfolding calls_def
  by (induction cs arbitrary: ps) (simp_all add: call_not_Active)

lemma postComplete_terminal: "Status (fst (fst (postComplete ps er))) \<in> {Completed, Failed}"
  by (simp add: postComplete_def split: option.splits)

text \<open>
  Claim C6. Once the status of a stream is not Active (Completed, Failed or Aborted),
  no sequence of Consume, Complete and Abort calls makes it Active again; the shared
  preamble \<^const>\<open>preprocess\<close> refuses every object with the stream-inactive error and
  leaves the whole stream state as it was, and so does \<^const>\<open>Consume\<close>: processedRows,
  successfulRows and the status are not modified.
\<close>

theorem C6_terminal_status_sticky:
  "Status (state ps) \<noteq> Active \<Longrightarrow>
     Status (state (calls eng ps cs)) \<noteq> Active
     \<and> preprocess eng ps object = (Inl (ErrStreamNotActive (Status (state ps))), ps)
     \<and> Consume eng ps object written = (Some (ErrStreamNotActive (Status (state ps))), ps)"
  by (simp add: calls_not_Active preprocess_inactive Consume_inactive)

theorem C6_terminal_status_sticky_witness:
  "Status (state completed_stream) \<noteq> Active
   \<and> Status (state (calls example_engine completed_stream
         [CallConsume 7 None, CallComplete (Some ''x''), CallAbort, CallConsume 8 None]))
       \<noteq> Active
   \<and> preprocess example_engine completed_stream 7
        = (Inl (ErrStreamNotActive Completed), completed_stream)
   \<and> Consume example_engine completed_stream 7 None
        = (Some (ErrStreamNotActive Completed), completed_stream)"
proof -
  have h: "Status (state completed_stream) \<noteq> Active"
    by (simp add: completed_stream_def Complete_def postComplete_def)
  have s: "Status (state completed_stream) = Completed"
    by (simp add: completed_stream_def Complete_def postComplete_def)
  show ?thesis
    using C6_terminal_status_sticky [OF h, of example_engine _ 7 None] h s by simp
qed

lemma preprocess_cases:
  "(\<exists>e. preprocess eng ps object = (Inl e, ps))
   \<or> (\<exists>r. preprocess eng ps object
         = (Inr r, ps\<lparr>state := (state ps)\<lparr>ProcessedRows := ProcessedRows (state ps) + 1\<rparr>\<rparr>))"
  by (auto simp: preprocess_def Let_def split: sum.splits)

lemma consumeAll_counts:
  "consumeAll eng cs (ps, errors, refused) = (ps', errors', refused')
   \<Longrightarrow> ProcessedRows (state ps) + int refused = SuccessfulRows (state ps) + int errors
   \<Longrightarrow> refused \<le> errors
   \<Longrightarrow> ProcessedRows (state ps') + int refused' = SuccessfulRows (state ps') + int errors'
       \<and> refused' \<le> errors'"
proof (induction cs arbitrary: ps errors refused)
  case Nil
  then show ?case by simp
next
  case (Cons c cs)
  obtain object written where c: "c = (object, written)" by (cases c)
  from preprocess_cases [of eng ps object] show ?case
  proof
    assume "\<exists>e. preprocess eng ps object = (Inl e, ps)"
    then obtain e where p: "preprocess eng ps object = (Inl e, ps)" ..
    have "consumeAll eng cs (ps, Suc errors, Suc refused) = (ps', errors', refused')"
      using Cons.prems(1) by (simp add: c p Consume_def)
    from Cons.IH [OF this] Cons.prems(2,3) show ?case by simp
  next
    assume "\<exists>r. preprocess eng ps object
         = (Inr r, ps\<lparr>state := (state ps)\<lparr>ProcessedRows := ProcessedRows (state ps) + 1\<rparr>\<rparr>)"
    then obtain r where p: "preprocess eng ps object
         = (Inr r, ps\<lparr>state := (state ps)\<lparr>ProcessedRows := ProcessedRows (state ps) + 1\<rparr>\<rparr>)" ..
    show ?case
    proof (cases written)
      case None
      have "consumeAll eng cs
              (ps\<lparr>state := (state ps)\<lparr>ProcessedRows := ProcessedRows (state ps) + 1,
                                       SuccessfulRows := SuccessfulRows (state ps) + 1\<rparr>\<rparr>,
               errors, refused) = (ps', errors', refused')"
        using Cons.prems(1) by (cases r) (simp add: c p Consume_def postConsume_def None)
      from Cons.IH [OF this] Cons.prems(2,3) show ?thesis by simp
    next
      case (Some e)
      have "consumeAll eng cs
              (ps\<lparr>state := (state ps)\<lparr>ProcessedRows := ProcessedRows (state ps) + 1,
                                       ErrorRowIndex := ProcessedRows (state ps) + 1,
                                       LastError := Some (ErrExternal e)\<rparr>\<rparr>,
               Suc errors, refused) = (ps', errors', refused')"
        using Cons.prems(1) by (cases r) (simp add: c p Consume_def postConsume_def Some)
      from Cons.IH [OF this] Cons.prems(2,3) show ?thesis by simp
    qed
  qed
qed

text \<open>
  Claim C7, as stated, fails: a Consume call that the preamble refuses returns an error
  and changes neither counter. On a stream that \<^verbatim>\<open>newAbstractStream\<close> created and
  \<^verbatim>\<open>postComplete\<close> completed, one Consume call returns the stream-inactive error, so one
  call returned an error, while processedRows and successfulRows are both still 0.
\<close>

theorem C7_counter_equation_counterexample:
  "newAbstractStream ''s1'' ''events'' Batch [] = Inr new_stream
   \<and> completed_stream = snd (postComplete new_stream None)
   \<and> consumeAll example_engine [(7, None)] (completed_stream, 0, 0) = (completed_stream, 1, 1)
   \<and> ProcessedRows (state completed_stream) = 0
   \<and> SuccessfulRows (state completed_stream) = 0
   \<and> ProcessedRows (state completed_stream) \<noteq> SuccessfulRows (state completed_stream) + int 1"
proof -
  have s: "Status (state completed_stream) \<noteq> Active"
    by (simp add: completed_stream_def Complete_def postComplete_def)
  have "consumeAll example_engine [(7, None)] (completed_stream, 0, 0) = (completed_stream, 1, 1)"
    by (simp add: preprocess_inactive [OF s] Consume_inactive [OF s])
  moreover have "ProcessedRows (state completed_stream) = 0"
    and "SuccessfulRows (state completed_stream) = 0"
    by (simp_all add: completed_stream_def Complete_def postComplete_def new_stream_def)
  ultimately show ?thesis
    by (simp add: newAbstractStream_new_stream completed_stream_def Complete_def)
qed

text \<open>
  Claim C7, amended. After any sequence of Consume calls on a stream whose two counters
  agree (a new stream), processedRows = successfulRows + (the number of Consume calls
  that returned an error, less those the preamble refused): \<^const>\<open>preprocess\<close> increments
  processedRows exactly once per object it accepts, and \<^const>\<open>postConsume\<close> increments
  successfulRows exactly when the write of an accepted object returned no error and
  records lastError and errorRowIndex otherwise. A call that the preamble refuses (the
  stream is not Active, or \<^verbatim>\<open>ProcessEvents\<close> failed) returns an error and is in neither
  counter.
\<close>

theorem C7_counter_equation_amended:
  "ProcessedRows (state ps) = SuccessfulRows (state ps)
   \<Longrightarrow> consumeAll eng cs (ps, 0, 0) = (ps', errors, refused)
   \<Longrightarrow> ProcessedRows (state ps') = SuccessfulRows (state ps') + (int errors - int refused)
       \<and> refused \<le> errors
       \<and> postConsume ps' None
           = (None, ps'\<lparr>state := (state ps')\<lparr>SuccessfulRows := SuccessfulRows (state ps') + 1\<rparr>\<rparr>)
       \<and> postConsume ps' (Some e)
           = (Some e, ps'\<lparr>state := (state ps')\<lparr>ErrorRowIndex := ProcessedRows (state ps'),
                                                 LastError := Some e\<rparr>\<rparr>)"
  using consumeAll_counts [of eng cs ps 0 0 ps' errors refused]
  by (simp add: postConsume_def)

theorem C7_counter_equation_amended_witness:
  "ProcessedRows (state new_stream) = SuccessfulRows (state new_stream)
   \<and> fst (snd (consumeAll example_engine [(1, None), (2, Some ''boom''), (3, None)]
                (new_stream, 0, 0))) = 1
   \<and> snd (snd (consumeAll example_engine [(1, None), (2, Some ''boom''), (3, None)]
                (new_stream, 0, 0))) = 0
   \<and> ProcessedRows (state (fst (consumeAll example_engine
         [(1, None), (2, Some ''boom''), (3, None)] (new_stream, 0, 0)))) = 3
   \<and> SuccessfulRows (state (fst (consumeAll example_engine
         [(1, None), (2, Some ''boom''), (3, None)] (new_stream, 0, 0)))) = 2"
proof -
  let ?r = "consumeAll example_engine [(1, None), (2, Some ''boom''), (3, None)]
              (new_stream, 0, 0)"
  have h: "ProcessedRows (state new_stream) = SuccessfulRows (state new_stream)"
    by (simp add: new_stream_def)
  have e: "fst (snd ?r) = 1" and r: "snd (snd ?r) = 0"
    and s: "SuccessfulRows (state (fst ?r)) = 2"
    by (simp_all add: preprocess_def Consume_def postConsume_def example_engine_def
        new_stream_def emptyStreamOptions_def)
  have c: "?r = (fst ?r, fst (snd ?r), snd (snd ?r))" by simp
  from C7_counter_equation_amended [OF h c] e r s h show ?thesis by simp
qed


section \<open>BigQuery streaming insert\<close>

lemma insertLoop_short:
  "length items + length xs \<le> Suc bigqueryRowsLimitPerInsertOperation
   \<Longrightarrow> insertLoop put xs items operation sent = (None, items @ xs, operation, sent)"
  by (induction xs arbitrary: items) auto

lemma Insert_short:
  "xs \<noteq> [] \<Longrightarrow> length xs \<le> Suc bigqueryRowsLimitPerInsertOperation
   \<Longrightarrow> Insert (\<lambda>items. None) xs = (None, [xs])"
  by (simp add: Insert_def insertLoop_short)

lemma insertLoop_ok:
  "insertLoop (\<lambda>items. None) xs items operation sent = (r, items', operation', sent')
   \<Longrightarrow> r = None \<and> concat sent' @ items' = concat sent @ items @ xs"
  by (induction xs arbitrary: items operation sent) (auto split: if_splits)

text \<open>
  When the inserter accepts every chunk, the chunks handed to \<^verbatim>\<open>insertItems\<close> are
  consecutive pieces of the objects, in order: each object is passed exactly once.
\<close>

lemma Insert_concat:
  fixes objects :: "'o list"
  shows "concat (snd (Insert (\<lambda>items. None :: 'e option) objects)) = objects"
proof -
  obtain r items' operation' sent' where
    h: "insertLoop (\<lambda>items. None :: 'e option) objects [] 0 [] = (r, items', operation', sent')"
    by (metis prod_cases4)
  from insertLoop_ok [OF h] have r: "r = None" and e: "concat sent' @ items' = objects"
    by simp_all
  show ?thesis
  proof (cases "items' = []")
    case True
    with e show ?thesis by (simp add: Insert_def h r)
  next
    case False
    with e show ?thesis by (simp add: Insert_def h r)
  qed
qed

text \<open>No chunk has more than 501 items (one more than the limit).\<close>

lemma insertLoop_sizes:
  "insertLoop put xs items operation sent = (r, items', operation', sent')
   \<Longrightarrow> length items \<le> Suc bigqueryRowsLimitPerInsertOperation
   \<Longrightarrow> list_all (\<lambda>c. length c \<le> Suc bigqueryRowsLimitPerInsertOperation) sent
   \<Longrightarrow> length items' \<le> Suc bigqueryRowsLimitPerInsertOperation
       \<and> list_all (\<lambda>c. length c \<le> Suc bigqueryRowsLimitPerInsertOperation) sent'"
  by (induction xs arbitrary: items operation sent)
     (auto split: if_splits option.splits simp: bigqueryRowsLimitPerInsertOperation_def)

text \<open>
  Claim C10 fails on the code: the loop flushes only when the chunk already holds more
  than 500 items (\<^verbatim>\<open>len(items) > 500\<close>), so a chunk grows to 501 items. For 501 objects,
  \<^verbatim>\<open>insertItems\<close> is called once, with all 501.
\<close>

theorem C10_insert_chunk_of_501:
  "Insert (\<lambda>items. None) [0..<501] = (None, [[0..<501]])
   \<and> length [0..<501] = 501
   \<and> bigqueryRowsLimitPerInsertOperation = 500"
  using Insert_short [of "[0..<501]"]
  by (simp add: bigqueryRowsLimitPerInsertOperation_def)


section \<open>BigQuery.CreateStream\<close>

text \<open>bigquery.go refuses the row-at-a-time mode, whatever the other arguments.\<close>

lemma BigQuery_CreateStream_Stream:
  "BigQuery_CreateStream SanitizeString ctors i tn Stream streamOptions
     = Inl BigQueryAutocommitUnsupported"
  by (simp add: BigQuery_CreateStream_def)

text \<open>In the other modes it returns what the mode's constructor returns.\<close>

lemma BigQuery_CreateStream_others:
  "BigQuery_CreateStream SanitizeString ctors i tn Batch streamOptions
     = newTransactionalStream ctors i tn
         (streamOptions @ [withLocalBatchFile (''bulker_'' @ SanitizeString i)])"
  "BigQuery_CreateStream SanitizeString ctors i tn ReplaceTable streamOptions
     = newReplaceTableStream ctors i tn
         (streamOptions @ [withLocalBatchFile (''bulker_'' @ SanitizeString i)])"
  "BigQuery_CreateStream SanitizeString ctors i tn ReplacePartition streamOptions
     = newReplacePartitionStream ctors i tn
         (streamOptions @ [withLocalBatchFile (''bulker_'' @ SanitizeString i)])"
  by (simp_all add: BigQuery_CreateStream_def)

lemma BigQuery_CreateStream_part_002_AutoCommit:
  "BigQuery_CreateStream_part_002 ctors i tn AutoCommit streamOptions
     = newAutoCommitStream ctors i tn streamOptions"
  by (simp add: BigQuery_CreateStream_part_002_def)

text \<open>
  Claim C5 fails on the earlier BigQuery adapter (part_002): its \<^verbatim>\<open>CreateStream\<close> hands
  the row-at-a-time mode to \<^verbatim>\<open>newAutoCommitStream\<close> and returns the stream that the
  constructor builds, where bigquery.go returns the error
  \<^verbatim>\<open>BigQueryAutocommitUnsupported\<close>. With the shared constructor of abstract.go standing
  for the mode's constructor:
\<close>

theorem C5_part_002_accepts_autocommit:
  "BigQuery_CreateStream_part_002 example_constructors ''s1'' ''events'' AutoCommit []
     = Inr (new_stream\<lparr>mode := AutoCommit\<rparr>)
   \<and> BigQuery_CreateStream (\<lambda>s. s) example_constructors ''s1'' ''events'' Stream []
     = Inl BigQueryAutocommitUnsupported"
  by (simp add: BigQuery_CreateStream_part_002_def BigQuery_CreateStream_def
      example_constructors_def newAbstractStream_def new_stream_def emptyStreamOptions_def)


section \<open>BigQuery identifier normalization\<close>

text \<open>\<^verbatim>\<open>tableNameFunc\<close> returns the identifier unchanged, so applying it twice changes nothing.\<close>

lemma tableNameFunc_idempotent:
  "fst (tableNameFunc pat (fst (tableNameFunc pat x))) = fst (tableNameFunc pat x)"
  by (simp add: tableNameFunc_def)

text \<open>\<^verbatim>\<open>columnNameFunc\<close> never reaches the panic of \<^verbatim>\<open>result[0]\<close>.\<close>

lemma supported_not_space: "supported_char c \<Longrightarrow> c \<noteq> CHR '' ''"
  by (auto simp: supported_char_def)

lemma removeUnsupported_spaces_nonempty:
  "removeUnsupported x \<noteq> [] \<Longrightarrow> removeUnsupported (spacesToUnderscores x) \<noteq> []"
proof -
  assume "removeUnsupported x \<noteq> []"
  then obtain c where c: "c \<in> set x" "supported_char c"
    by (auto simp: removeUnsupported_def filter_empty_conv)
  then have "c \<in> set (spacesToUnderscores x)"
    using supported_not_space [of c] by (force simp: spacesToUnderscores_def)
  with c(2) show ?thesis
    by (auto simp: removeUnsupported_def filter_empty_conv)
qed

lemma columnNameFunc_total: "\<exists>r. columnNameFunc HashString x = Some r"
proof (cases "collapseUnderscores (removeUnsupported x) = [] \<or> collapseUnderscores (removeUnsupported x) = ''_''")
  case True
  then show ?thesis by (auto simp: columnNameFunc_def)
next
  case False
  then have "removeUnsupported x \<noteq> []" by auto
  then have "removeUnsupported (spacesToUnderscores x) \<noteq> []"
    by (rule removeUnsupported_spaces_nonempty)
  then obtain c cs where "removeUnsupported (spacesToUnderscores x) = c # cs"
    by (cases "removeUnsupported (spacesToUnderscores x)") auto
  with False show ?thesis
    by (auto simp: columnNameFunc_def Let_def)
qed

lemma collapse_replicate_underscores:
  "collapseUnderscores (replicate (Suc n) CHR ''_'') = ''_''"
  by (induction n) simp_all

lemma collapse_underscores_then:
  "c \<noteq> CHR ''_'' \<Longrightarrow>
   collapseUnderscores (replicate (Suc n) CHR ''_'' @ c # cs) = CHR ''_'' # collapseUnderscores (c # cs)"
  by (induction n) simp_all

lemma removeUnsupported_underscores:
  "removeUnsupported (replicate n CHR ''_'' @ s) = replicate n CHR ''_'' @ removeUnsupported s"
  by (simp add: removeUnsupported_def supported_char_def)

lemma spacesToUnderscores_underscores:
  "spacesToUnderscores (replicate n CHR ''_'' @ s) = replicate n CHR ''_'' @ spacesToUnderscores s"
  by (simp add: spacesToUnderscores_def)

lemma ToLower_underscores:
  "ToLower (replicate n CHR ''_'' @ s) = replicate n CHR ''_'' @ ToLower s"
  by (simp add: ToLower_def lower_char_def)

lemma reserved_word_hd: "w \<in> set bigqueryReservedWords \<Longrightarrow> hd w \<noteq> CHR ''_''"
  by (auto simp: bigqueryReservedWords_def)

lemma underscores_not_reserved:
  "replicate (Suc n) CHR ''_'' @ s \<notin> set bigqueryReservedWords"
  using reserved_word_hd [of "replicate (Suc n) CHR ''_'' @ s"] by auto

lemma three_underscores_no_prefix:
  "\<not> list_ex (HasPrefix (CHR ''_'' # CHR ''_'' # CHR ''_'' # s)) bigqueryReservedPrefixes"
  by (simp add: bigqueryReservedPrefixes_def HasPrefix_def)

lemma underscores_no_prefix:
  "\<not> list_ex (HasPrefix (replicate (Suc (Suc (Suc n))) CHR ''_'' @ s)) bigqueryReservedPrefixes"
  using three_underscores_no_prefix [of "replicate n CHR ''_'' @ s"] by simp

lemma columnNameFunc_plain:
  assumes "removeUnsupported x = x" and "spacesToUnderscores x = x" and "ToLower x = x"
    and "collapseUnderscores x \<noteq> []" and "collapseUnderscores x \<noteq> ''_''"
    and "\<not> IsNumber (hd x)"
    and "x \<notin> set bigqueryReservedWords"
    and "\<not> list_ex (HasPrefix x) bigqueryReservedPrefixes"
  shows "columnNameFunc HashString x = Some (ShortenString x 300, False)"
proof (cases x)
  case Nil
  with assms(4) show ?thesis by simp
next
  case (Cons c cs)
  with assms show ?thesis
    by (simp add: columnNameFunc_def Let_def)
qed

lemma columnNameFunc_underscores_a:
  "columnNameFunc HashString (replicate (Suc (Suc (Suc n))) CHR ''_'' @ ''a'')
     = Some (ShortenString (replicate (Suc (Suc (Suc n))) CHR ''_'' @ ''a'') 300, False)"
proof (rule columnNameFunc_plain)
  let ?x = "replicate (Suc (Suc (Suc n))) CHR ''_'' @ ''a''"
  show "removeUnsupported ?x = ?x"
    by (simp only: removeUnsupported_underscores) (simp add: removeUnsupported_def supported_char_def)
  show "spacesToUnderscores ?x = ?x"
    by (simp only: spacesToUnderscores_underscores) (simp add: spacesToUnderscores_def)
  show "ToLower ?x = ?x"
    by (simp only: ToLower_underscores) (simp add: ToLower_def lower_char_def)
  have c: "collapseUnderscores ?x = ''_a''"
    using collapse_underscores_then [of "CHR ''a''" "Suc (Suc n)" "[]"] by simp
  show "collapseUnderscores ?x \<noteq> []" and "collapseUnderscores ?x \<noteq> ''_''"
    by (simp_all only: c) simp_all
  show "\<not> IsNumber (hd ?x)" by (simp add: IsNumber_def)
  show "?x \<notin> set bigqueryReservedWords" by (rule underscores_not_reserved)
  show "\<not> list_ex (HasPrefix ?x) bigqueryReservedPrefixes" by (rule underscores_no_prefix)
qed

lemma columnNameFunc_underscores:
  "columnNameFunc HashString (replicate (Suc n) CHR ''_'')
     = Some (''column_'' @ HashString (replicate (Suc n) CHR ''_''), False)"
proof -
  have s: "removeUnsupported (replicate (Suc n) CHR ''_'') = replicate (Suc n) CHR ''_''"
    using removeUnsupported_underscores [of "Suc n" "[]"] by (simp add: removeUnsupported_def)
  have "collapseUnderscores (removeUnsupported (replicate (Suc n) CHR ''_'')) = ''_''"
    by (simp only: s collapse_replicate_underscores)
  then show ?thesis
    by (simp add: columnNameFunc_def del: replicate.simps)
qed

lemma shorten_underscores_a:
  "ShortenString (replicate 300 CHR ''_'' @ ''a'') 300 = replicate 300 CHR ''_''"
  by (simp add: ShortenString_def)

lemma placeholder_not_underscores:
  "''column_'' @ h \<noteq> replicate (Suc n) CHR ''_''"
  by simp

text \<open>
  Claim C8 fails on \<^verbatim>\<open>columnNameFunc\<close>. The test for an empty or underscore-only name
  is made before the length clamp, so an identifier of 300 underscores followed by a
  letter passes it and is then clamped to 300 underscores; applied to that result, the
  function finds an underscore-only name and returns the hash placeholder instead.
  This holds for whatever \<open>HashString\<close> returns.
\<close>

theorem C8_column_name_not_idempotent:
  "columnNameFunc HashString (replicate 300 CHR ''_'' @ ''a'') = Some (replicate 300 CHR ''_'', False)
   \<and> columnNameFunc HashString (replicate 300 CHR ''_'')
       = Some (''column_'' @ HashString (replicate 300 CHR ''_''), False)
   \<and> ''column_'' @ HashString (replicate 300 CHR ''_'') \<noteq> replicate 300 CHR ''_''"
proof -
  have n: "(300::nat) = Suc (Suc (Suc 297))" and m: "(300::nat) = Suc 299" by simp_all
  have a: "columnNameFunc HashString (replicate 300 CHR ''_'' @ ''a'')
             = Some (replicate 300 CHR ''_'', False)"
    using columnNameFunc_underscores_a [of HashString 297] shorten_underscores_a
    by (simp only: n [symmetric])
  have b: "columnNameFunc HashString (replicate 300 CHR ''_'')
       = Some (''column_'' @ HashString (replicate 300 CHR ''_''), False)"
    using columnNameFunc_underscores [of HashString 299] by (simp only: m [symmetric])
  have c: "''column_'' @ HashString (replicate 300 CHR ''_'') \<noteq> replicate 300 CHR ''_''"
    unfolding m by (rule placeholder_not_underscores)
  from a b c show ?thesis by simp
qed


text \<open>
  The remaining lemmas describe \<^verbatim>\<open>columnNameFunc\<close> on the strings it produces.
\<close>

lemma of_char_lower_char:
  "(of_char (lower_char c) :: nat)
     = (if 65 \<le> (of_char c :: nat) \<and> (of_char c :: nat) \<le> 90 then of_char c + 32 else of_char c)"
proof -
  have "(of_char c :: nat) mod 256 < 256" by simp
  then have "(of_char c :: nat) < 256" by (simp only: of_char_mod_256)
  then show ?thesis
    by (auto simp: lower_char_def less_eq_char_def)
qed

lemma char_eq_of_char: "c = d \<longleftrightarrow> (of_char c :: nat) = of_char d"
  by auto

lemma lower_char_underscore [simp]: "lower_char c = CHR ''_'' \<longleftrightarrow> c = CHR ''_''"
  by (auto simp: char_eq_of_char [of _ "CHR ''_''"] of_char_lower_char)

lemma IsNumber_lower_char [simp]: "IsNumber (lower_char c) \<longleftrightarrow> IsNumber c"
  by (auto simp: IsNumber_def less_eq_char_def of_char_lower_char)

lemma removeUnsupported_supported: "list_all supported_char (removeUnsupported s)"
  by (simp add: removeUnsupported_def list_all_iff)

lemma removeUnsupported_id: "list_all supported_char y \<Longrightarrow> removeUnsupported y = y"
  by (simp add: removeUnsupported_def list_all_iff)

lemma spacesToUnderscores_id: "list_all supported_char y \<Longrightarrow> spacesToUnderscores y = y"
  by (induction y) (auto simp: spacesToUnderscores_def dest: supported_not_space)

lemma collapse_Nil [simp]: "collapseUnderscores y = [] \<longleftrightarrow> y = []"
  by (induction y rule: collapseUnderscores.induct) auto

lemma collapse_hd: "y \<noteq> [] \<Longrightarrow> hd (collapseUnderscores y) = hd y"
  by (induction y rule: collapseUnderscores.induct) auto

lemma collapse_single:
  "collapseUnderscores y = ''_'' \<longleftrightarrow> y \<noteq> [] \<and> set y \<subseteq> {CHR ''_''}"
  by (induction y rule: collapseUnderscores.induct) (auto split: if_splits)

lemma placeholder_iff:
  "(collapseUnderscores y = [] \<or> collapseUnderscores y = ''_'') \<longleftrightarrow> set y \<subseteq> {CHR ''_''}"
  by (cases "y = []") (auto simp: collapse_single)

lemma ToLower_take: "ToLower (take n y) = take n (ToLower y)"
  by (simp add: ToLower_def take_map)

lemma ToLower_Cons: "ToLower (c # y) = lower_char c # ToLower y"
  by (simp add: ToLower_def)

lemma hd_ToLower: "y \<noteq> [] \<Longrightarrow> hd (ToLower y) = lower_char (hd y)"
  by (cases y) (simp_all add: ToLower_def)

lemma ToLower_Nil [simp]: "ToLower y = [] \<longleftrightarrow> y = []"
  by (simp add: ToLower_def)

lemma reserved_word_facts:
  "w \<in> set bigqueryReservedWords \<Longrightarrow>
     w \<noteq> [] \<and> hd w \<noteq> CHR ''_'' \<and> \<not> IsNumber (hd w) \<and> length w \<le> 20"
  by (auto simp: bigqueryReservedWords_def IsNumber_def)

lemma reserved_prefix_cases:
  "list_ex (HasPrefix s) bigqueryReservedPrefixes \<Longrightarrow>
     (\<exists>t. s = ''_table_'' @ t) \<or> (\<exists>t. s = ''_file_'' @ t) \<or> (\<exists>t. s = ''_partition'' @ t)
     \<or> (\<exists>t. s = ''_row_timestamp'' @ t) \<or> (\<exists>t. s = ''__root__'' @ t)
     \<or> (\<exists>t. s = ''_colidentifier'' @ t)"
proof -
  assume "list_ex (HasPrefix s) bigqueryReservedPrefixes"
  then obtain p where p: "p \<in> set bigqueryReservedPrefixes" and "take (length p) s = p"
    by (auto simp: list_ex_iff HasPrefix_def)
  then have "s = p @ drop (length p) s"
    by (metis append_take_drop_id)
  with p show ?thesis
    unfolding bigqueryReservedPrefixes_def by auto
qed

lemma HasPrefix_take:
  "length p \<le> n \<Longrightarrow> HasPrefix (take n s) p \<longleftrightarrow> HasPrefix s p"
  by (simp add: HasPrefix_def min_def)

lemma list_ex_HasPrefix_take:
  "300 \<le> n \<Longrightarrow> list_ex (HasPrefix (take n s)) bigqueryReservedPrefixes
     \<longleftrightarrow> list_ex (HasPrefix s) bigqueryReservedPrefixes"
  by (simp add: bigqueryReservedPrefixes_def HasPrefix_take)

lemma columnNameFunc_supported:
  assumes "list_all supported_char y" and "\<not> set y \<subseteq> {CHR ''_''}" and "\<not> IsNumber (hd y)"
  shows "columnNameFunc HashString y =
           (if ToLower y \<in> set bigqueryReservedWords then Some (y, True)
            else if list_ex (HasPrefix (ToLower y)) bigqueryReservedPrefixes
                 then Some (ShortenString (''_'' @ y) 300, False)
                 else Some (ShortenString y 300, False))"
proof (cases y)
  case Nil
  with assms(2) show ?thesis by simp
next
  case (Cons c cs)
  have s: "removeUnsupported (c # cs) = c # cs"
    using removeUnsupported_id [OF assms(1)] by (simp only: Cons)
  have sp: "spacesToUnderscores (c # cs) = c # cs"
    using spacesToUnderscores_id [OF assms(1)] by (simp only: Cons)
  have p: "collapseUnderscores (c # cs) \<noteq> []" "collapseUnderscores (c # cs) \<noteq> ''_''"
    using assms(2) placeholder_iff [of y] by (simp_all only: Cons) auto
  have n: "\<not> IsNumber c" using assms(3) by (simp add: Cons)
  show ?thesis
    using p n by (simp add: Cons columnNameFunc_def sp s Let_def)
qed

lemma columnNameFunc_first:
  assumes "\<not> set (removeUnsupported x) \<subseteq> {CHR ''_''}"
  shows "columnNameFunc HashString x =
           (let r1 = removeUnsupported (spacesToUnderscores x);
                result' = (if IsNumber (hd r1) then ''_'' @ r1 else r1)
            in if ToLower result' \<in> set bigqueryReservedWords then Some (result', True)
               else if list_ex (HasPrefix (ToLower result')) bigqueryReservedPrefixes
                    then Some (ShortenString (''_'' @ result') 300, False)
                    else Some (ShortenString result' 300, False))"
proof -
  have p: "\<not> (collapseUnderscores (removeUnsupported x) = []
              \<or> collapseUnderscores (removeUnsupported x) = ''_'')"
    using assms by (simp only: placeholder_iff) simp
  then have "removeUnsupported x \<noteq> []" by auto
  then have "removeUnsupported (spacesToUnderscores x) \<noteq> []"
    by (rule removeUnsupported_spaces_nonempty)
  then obtain c cs where r: "removeUnsupported (spacesToUnderscores x) = c # cs"
    by (cases "removeUnsupported (spacesToUnderscores x)") auto
  show ?thesis
    using p by (simp add: columnNameFunc_def Let_def r)
qed

lemma placeholder_case:
  assumes "set (removeUnsupported x) \<subseteq> {CHR ''_''}"
  shows "columnNameFunc HashString x = Some (''column_'' @ HashString x, False)"
proof -
  have "collapseUnderscores (removeUnsupported x) = []
              \<or> collapseUnderscores (removeUnsupported x) = ''_''"
    using assms by (simp only: placeholder_iff)
  then show ?thesis by (auto simp: columnNameFunc_def)
qed

lemma non_underscore_kept:
  assumes "\<not> set (removeUnsupported x) \<subseteq> {CHR ''_''}"
  shows "\<not> set (removeUnsupported (spacesToUnderscores x)) \<subseteq> {CHR ''_''}"
proof -
  from assms obtain c where c: "c \<in> set x" "supported_char c" "c \<noteq> CHR ''_''"
    by (auto simp: removeUnsupported_def)
  then have "c \<in> set (spacesToUnderscores x)"
    using supported_not_space [of c] by (force simp: spacesToUnderscores_def)
  with c show ?thesis by (auto simp: removeUnsupported_def)
qed

lemma column_placeholder_fixed:
  assumes "list_all supported_char h" and "length h \<le> 293"
  shows "columnNameFunc HashString (''column_'' @ h) = Some (''column_'' @ h, False)"
proof -
  have s: "list_all supported_char (''column_'' @ h)"
    using assms(1) by (simp add: supported_char_def)
  have w: "ToLower (''column_'' @ h) \<notin> set bigqueryReservedWords"
    by (simp add: ToLower_def lower_char_def bigqueryReservedWords_def)
  have p: "\<not> list_ex (HasPrefix (ToLower (''column_'' @ h))) bigqueryReservedPrefixes"
    by (simp add: ToLower_def lower_char_def bigqueryReservedPrefixes_def HasPrefix_def)
  have "columnNameFunc HashString (''column_'' @ h)
          = Some (ShortenString (''column_'' @ h) 300, False)"
    using w p by (subst columnNameFunc_supported [OF s]) (simp_all add: IsNumber_def)
  with assms(2) show ?thesis by (simp add: ShortenString_def)
qed

lemma ShortenString_take: "ShortenString s n = take n s"
  by (simp add: ShortenString_def)

lemma underscore_start_not_reserved:
  "y \<noteq> [] \<Longrightarrow> hd y = CHR ''_'' \<Longrightarrow> ToLower y \<notin> set bigqueryReservedWords"
  using reserved_word_facts [of "ToLower y"] by (auto simp: hd_ToLower)

lemma underscore_before_prefix:
  assumes "list_ex (HasPrefix s) bigqueryReservedPrefixes"
  shows "\<not> list_ex (HasPrefix (CHR ''_'' # s)) bigqueryReservedPrefixes"
    and "\<not> set (take 300 (CHR ''_'' # s)) \<subseteq> {CHR ''_''}"
  using reserved_prefix_cases [OF assms]
  by (auto simp: bigqueryReservedPrefixes_def HasPrefix_def)

lemma set_ToLower_underscores:
  "set y \<subseteq> {CHR ''_''} \<Longrightarrow> set (ToLower y) \<subseteq> {CHR ''_''}"
  by (auto simp: ToLower_def)

lemma columnNameFunc_second_prefix:
  assumes sup: "list_all supported_char res"
    and pre: "list_ex (HasPrefix (ToLower res)) bigqueryReservedPrefixes"
  shows "columnNameFunc HashString (take 300 (''_'' @ res)) = Some (take 300 (''_'' @ res), False)"
proof -
  let ?y = "take 300 (''_'' @ res)"
  have l: "ToLower ?y = take 300 (CHR ''_'' # ToLower res)"
    by (simp add: ToLower_take ToLower_Cons)
  have s: "list_all supported_char ?y"
    using sup by (auto simp: list_all_iff supported_char_def dest: in_set_takeD)
  have "\<not> set (ToLower ?y) \<subseteq> {CHR ''_''}"
    unfolding l by (rule underscore_before_prefix(2) [OF pre])
  then have nu: "\<not> set ?y \<subseteq> {CHR ''_''}"
    using set_ToLower_underscores [of ?y] by blast
  have hd: "?y \<noteq> []" "hd ?y = CHR ''_''" by simp_all
  have n: "\<not> IsNumber (hd ?y)" by (simp add: IsNumber_def)
  have w: "ToLower ?y \<notin> set bigqueryReservedWords"
    using underscore_start_not_reserved [OF hd] .
  have p: "\<not> list_ex (HasPrefix (ToLower ?y)) bigqueryReservedPrefixes"
    unfolding l
    using underscore_before_prefix(1) [OF pre]
      list_ex_HasPrefix_take [of 300 "CHR ''_'' # ToLower res"]
    by simp
  have "columnNameFunc HashString ?y = Some (ShortenString ?y 300, False)"
    using w p by (simp only: columnNameFunc_supported [OF s nu n] if_False)
  then show ?thesis by (simp add: ShortenString_take)
qed

lemma columnNameFunc_second_plain:
  assumes sup: "list_all supported_char res"
    and nu: "\<not> set (take 300 res) \<subseteq> {CHR ''_''}"
    and n: "\<not> IsNumber (hd res)"
    and w: "ToLower (take 300 res) \<notin> set bigqueryReservedWords"
    and p: "\<not> list_ex (HasPrefix (ToLower res)) bigqueryReservedPrefixes"
  shows "columnNameFunc HashString (take 300 res) = Some (take 300 res, False)"
proof -
  let ?y = "take 300 res"
  have s: "list_all supported_char ?y"
    using sup by (auto simp: list_all_iff dest: in_set_takeD)
  have ne: "res \<noteq> []" using nu by auto
  have n': "\<not> IsNumber (hd ?y)" using n ne by (cases res) simp_all
  have p': "\<not> list_ex (HasPrefix (ToLower ?y)) bigqueryReservedPrefixes"
    using p by (simp add: ToLower_take list_ex_HasPrefix_take)
  have "columnNameFunc HashString ?y = Some (ShortenString ?y 300, False)"
    using w p' by (simp only: columnNameFunc_supported [OF s nu n'] if_False)
  then show ?thesis by (simp add: ShortenString_take)
qed

text \<open>
  Outside that corner the normalization is stable. For every identifier of at most 300
  bytes, and a hash text of supported characters that leaves the placeholder within
  300 bytes, the adapted name is a fixed point of \<^verbatim>\<open>columnNameFunc\<close>, with the same
  quoting flag.
\<close>

lemma columnNameFunc_idempotent_upto_300:
  assumes H1: "\<And>s. list_all supported_char (HashString s)"
    and H2: "\<And>s. length (HashString s) \<le> 293"
    and len: "length x \<le> 300"
    and r: "columnNameFunc HashString x = Some (y, q)"
  shows "columnNameFunc HashString y = Some (y, q)"
proof (cases "set (removeUnsupported x) \<subseteq> {CHR ''_''}")
  case True
  from placeholder_case [OF True] r have "y = ''column_'' @ HashString x" and "q = False"
    by simp_all
  with column_placeholder_fixed [OF H1 H2, of HashString x] show ?thesis by simp
next
  case False
  define r1 where "r1 = removeUnsupported (spacesToUnderscores x)"
  define res where "res = (if IsNumber (hd r1) then ''_'' @ r1 else r1)"
  have sup1: "list_all supported_char r1"
    unfolding r1_def by (rule removeUnsupported_supported)
  have nu1: "\<not> set r1 \<subseteq> {CHR ''_''}"
    unfolding r1_def by (rule non_underscore_kept [OF False])
  have l1: "length r1 \<le> 300"
  proof -
    have "length r1 \<le> length (spacesToUnderscores x)"
      unfolding r1_def removeUnsupported_def by (rule length_filter_le)
    also have "\<dots> = length x" by (simp add: spacesToUnderscores_def)
    finally show ?thesis using len by simp
  qed
  have ne1: "r1 \<noteq> []" using nu1 by auto
  have sup: "list_all supported_char res"
    using sup1 by (simp add: res_def supported_char_def)
  have n: "\<not> IsNumber (hd res)"
    by (simp add: res_def IsNumber_def)
  have nu: "\<not> set (take 300 res) \<subseteq> {CHR ''_''}"
  proof (cases "IsNumber (hd r1)")
    case True
    then have "hd r1 \<noteq> CHR ''_''" by (auto simp: IsNumber_def)
    moreover have "hd r1 \<in> set (take 300 res)"
      using True ne1 by (cases r1) (simp_all add: res_def)
    ultimately show ?thesis by auto
  next
    case False
    with l1 nu1 show ?thesis by (simp add: res_def)
  qed
  then have nu': "\<not> set res \<subseteq> {CHR ''_''}"
    using set_take_subset [of 300 res] by blast
  have first: "columnNameFunc HashString x =
           (if ToLower res \<in> set bigqueryReservedWords then Some (res, True)
            else if list_ex (HasPrefix (ToLower res)) bigqueryReservedPrefixes
                 then Some (ShortenString (''_'' @ res) 300, False)
                 else Some (ShortenString res 300, False))"
    using columnNameFunc_first [OF False, of HashString]
    by (simp add: Let_def r1_def [symmetric] res_def [symmetric])
  show ?thesis
  proof (cases "ToLower res \<in> set bigqueryReservedWords")
    case True
    with first r have "y = res" and "q = True" by simp_all
    with columnNameFunc_supported [OF sup nu' n, of HashString] True show ?thesis by simp
  next
    case nw: False
    show ?thesis
    proof (cases "list_ex (HasPrefix (ToLower res)) bigqueryReservedPrefixes")
      case True
      with first r nw have "y = take 300 (''_'' @ res)" and "q = False"
        by (simp_all add: ShortenString_take)
      with columnNameFunc_second_prefix [OF sup True, of HashString] show ?thesis by simp
    next
      case np: False
      with first r nw have y: "y = take 300 res" and q: "q = False"
        by (simp_all add: ShortenString_take)
      have w: "ToLower (take 300 res) \<notin> set bigqueryReservedWords"
      proof (cases "IsNumber (hd r1)")
        case True
        then have "take 300 res \<noteq> []" and "hd (take 300 res) = CHR ''_''"
          by (simp_all add: res_def)
        then show ?thesis by (rule underscore_start_not_reserved)
      next
        case False
        with l1 nw show ?thesis by (simp add: res_def)
      qed
      from columnNameFunc_second_plain [OF sup nu n w np, of HashString] y q
      show ?thesis by simp
    qed
  qed
qed


section \<open>GetTableSchema\<close>

lemma getTableRows_error:
  "getTableRows z rs t = Inl e \<Longrightarrow> list_ex isl rs"
  by (induction z rs t rule: getTableRows.induct) (auto split: if_splits)

lemma getPrimaryKeyRows_error:
  "getPrimaryKeyRows rs n fs = Inl e \<Longrightarrow> list_ex isl rs"
  by (induction rs n fs rule: getPrimaryKeyRows.induct) auto

lemma getTable_error:
  "getTable z q tn = Inl e \<Longrightarrow> query_failed (q tn)"
  by (auto simp: getTable_def query_failed_def Let_def
      split: query_result.splits sum.splits option.splits dest: getTableRows_error)

lemma getPrimaryKey_error:
  "getPrimaryKey q tn = Inl e \<Longrightarrow> query_failed (q tn)"
  by (auto simp: getPrimaryKey_def query_failed_def
      split: query_result.splits sum.splits option.splits dest: getPrimaryKeyRows_error)

lemma Postgres_GetTableSchema_error:
  "Postgres_GetTableSchema z sq pq tn = Inl e \<Longrightarrow> query_failed (sq tn) \<or> query_failed (pq tn)"
  by (auto simp: Postgres_GetTableSchema_def split: sum.splits if_splits
      dest: getTable_error getPrimaryKey_error)

lemma Postgres_GetTableSchema_absent:
  "sq tn = Rows [] None \<Longrightarrow>
   Postgres_GetTableSchema z sq pq tn
     = Inr \<lparr>Name = tn, Columns = [], PKFields = {}, PrimaryKeyName = []\<rparr>"
  by (simp add: Postgres_GetTableSchema_def getTable_def)

lemma BigQuery_GetTableSchema_absent:
  "Metadata (TableName tn) = Inl er \<Longrightarrow> isNotFoundErr er \<Longrightarrow>
   BigQuery_GetTableSchema TableName pfx z Metadata tn
     = Inr \<lparr>Name = TableName tn, Columns = [], PKFields = {}, PrimaryKeyName = []\<rparr>"
  by (simp add: BigQuery_GetTableSchema_def)

lemma BigQuery_GetTableSchema_error:
  "BigQuery_GetTableSchema TableName pfx z Metadata tn = Inl e \<Longrightarrow>
   \<exists>er. Metadata (TableName tn) = Inl er \<and> \<not> isNotFoundErr er
        \<and> e = GetTableError ''failed to get table'' er"
  by (auto simp: BigQuery_GetTableSchema_def Let_def split: sum.splits if_splits)

lemma BigQuery_GetTableSchema_part_002_absent:
  "Metadata tn = Inl er \<Longrightarrow> isNotFoundErr er \<Longrightarrow>
   BigQuery_GetTableSchema_part_002 z Metadata tn
     = Inr \<lparr>Name = tn, Columns = [], PKFields = {}, PrimaryKeyName = []\<rparr>"
  by (simp add: BigQuery_GetTableSchema_part_002_def)

lemma BigQuery_GetTableSchema_part_002_error:
  "BigQuery_GetTableSchema_part_002 z Metadata tn = Inl e \<Longrightarrow>
   \<exists>er. Metadata tn = Inl er \<and> \<not> isNotFoundErr er
        \<and> e = GetTableError ''failed to get table'' er"
  by (auto simp: BigQuery_GetTableSchema_part_002_def Let_def split: sum.splits if_splits)

lemma not_found_iff: "isNotFoundErr er = (\<exists>msg. er = GoogleApiError 404 msg)"
  by (cases er) (auto simp: isNotFoundErr_def)

lemma BigQuery_TableName_short:
  "length tn \<le> 1024 \<Longrightarrow> BigQuery_TableName pat tn = tn"
  by (simp add: BigQuery_TableName_def TableHelper_TableName_def tableNameFunc_def
      ShortenString_def)

lemma BigQuery_TableName_long:
  "BigQuery_TableName pat (replicate (Suc 1024) c) = replicate 1024 c"
  by (simp add: BigQuery_TableName_def TableHelper_TableName_def tableNameFunc_def
      ShortenString_def)

text \<open>The clamped table name is a fixed point of \<^const>\<open>BigQuery_TableName\<close>.\<close>

lemma BigQuery_TableName_idempotent:
  "BigQuery_TableName pat (BigQuery_TableName pat x) = BigQuery_TableName pat x"
  by (simp add: BigQuery_TableName_def TableHelper_TableName_def tableNameFunc_def
      ShortenString_def)

text \<open>
  Claim C4, as stated, fails for the BigQuery adapter of bigquery.go: the table it
  returns for a missing table does not carry the requested name but the name as
  \<^verbatim>\<open>bq.TableName\<close> writes it. A requested name of 1025 bytes comes back as its first
  1024 bytes.
\<close>

theorem C4_requested_name_counterexample:
  "example_metadata (replicate 1024 CHR ''a'') = Inl (GoogleApiError 404 ''not found'')
   \<and> BigQuery_GetTableSchema (BigQuery_TableName (\<lambda>s. True)) ''bulker_pk_'' UNKNOWN
        example_metadata (replicate 1025 CHR ''a'')
       = Inr \<lparr>Name = replicate 1024 CHR ''a'', Columns = [], PKFields = {},
              PrimaryKeyName = []\<rparr>
   \<and> replicate 1024 CHR ''a'' \<noteq> replicate 1025 CHR ''a''"
proof -
  have n: "replicate 1024 CHR ''a'' \<noteq> replicate 1025 CHR ''a''"
  proof
    assume "replicate 1024 CHR ''a'' = replicate 1025 CHR ''a''"
    then have "length (replicate 1024 CHR ''a'') = length (replicate 1025 CHR ''a'')"
      by (rule arg_cong)
    then show False by simp
  qed
  have e: "replicate 1024 CHR ''a'' \<noteq> ''events''"
    and b: "replicate 1024 CHR ''a'' \<noteq> ''broken''"
    using length_replicate [of 1024 "CHR ''a''"] by fastforce+
  have m: "example_metadata (replicate 1024 CHR ''a'') = Inl (GoogleApiError 404 ''not found'')"
    using e b by (simp add: example_metadata_def)
  have s: "(1025 :: nat) = Suc 1024" by simp
  have t: "BigQuery_TableName (\<lambda>s. True) (replicate 1025 CHR ''a'') = replicate 1024 CHR ''a''"
    unfolding s by (rule BigQuery_TableName_long)
  have "BigQuery_GetTableSchema (BigQuery_TableName (\<lambda>s. True)) ''bulker_pk_'' UNKNOWN
          example_metadata (replicate 1025 CHR ''a'')
        = Inr \<lparr>Name = replicate 1024 CHR ''a'', Columns = [], PKFields = {},
               PrimaryKeyName = []\<rparr>"
    unfolding BigQuery_GetTableSchema_def t Let_def m by (simp add: isNotFoundErr_def)
  with m n show ?thesis by simp
qed

text \<open>
  Claim C4, amended. \<^verbatim>\<open>GetTableSchema\<close> never fails with not-found. When the warehouse
  reports that the table is absent (BigQuery: \<^verbatim>\<open>Metadata\<close> fails with a googleapi error
  of code 404; Postgres: the schema query yields no rows and no error), the result
  is, without error, a table with no columns, whose name is the requested name in
  Postgres and in the earlier BigQuery adapter, and the requested name as the
  adapter's \<^verbatim>\<open>TableName\<close> writes it in bigquery.go. An error is returned only when the
  warehouse failed in another way: a \<^verbatim>\<open>Metadata\<close> error that is not a googleapi error of
  code 404, or a failed query, scan or row iteration. The sum type has no value for
  "no table and no error".
\<close>

theorem C4_GetTableSchema_not_found:
  "(Metadata (TableName tn) = Inl (GoogleApiError 404 msg) \<longrightarrow>
      BigQuery_GetTableSchema TableName pfx z Metadata tn
        = Inr \<lparr>Name = TableName tn, Columns = [], PKFields = {}, PrimaryKeyName = []\<rparr>)
   \<and> (BigQuery_GetTableSchema TableName pfx z Metadata tn = Inl e1 \<longrightarrow>
        (\<exists>er'. Metadata (TableName tn) = Inl er' \<and> (\<forall>m. er' \<noteq> GoogleApiError 404 m)
               \<and> e1 = GetTableError ''failed to get table'' er'))
   \<and> (Metadata tn = Inl (GoogleApiError 404 msg) \<longrightarrow>
        BigQuery_GetTableSchema_part_002 z Metadata tn
          = Inr \<lparr>Name = tn, Columns = [], PKFields = {}, PrimaryKeyName = []\<rparr>)
   \<and> (BigQuery_GetTableSchema_part_002 z Metadata tn = Inl e1 \<longrightarrow>
        (\<exists>er'. Metadata tn = Inl er' \<and> (\<forall>m. er' \<noteq> GoogleApiError 404 m)
               \<and> e1 = GetTableError ''failed to get table'' er'))
   \<and> (sq tn = Rows [] None \<longrightarrow>
        Postgres_GetTableSchema z sq pq tn
          = Inr \<lparr>Name = tn, Columns = [], PKFields = {}, PrimaryKeyName = []\<rparr>)
   \<and> (Postgres_GetTableSchema z sq pq tn = Inl e2 \<longrightarrow>
        query_failed (sq tn) \<or> query_failed (pq tn))"
proof -
  have n: "isNotFoundErr (GoogleApiError 404 msg)"
    by (simp add: isNotFoundErr_def)
  have 1: "Metadata (TableName tn) = Inl (GoogleApiError 404 msg) \<Longrightarrow>
      BigQuery_GetTableSchema TableName pfx z Metadata tn
        = Inr \<lparr>Name = TableName tn, Columns = [], PKFields = {}, PrimaryKeyName = []\<rparr>"
    using BigQuery_GetTableSchema_absent [of Metadata TableName tn _ pfx z] n by simp
  have 2: "BigQuery_GetTableSchema TableName pfx z Metadata tn = Inl e1 \<Longrightarrow>
        \<exists>er'. Metadata (TableName tn) = Inl er' \<and> (\<forall>m. er' \<noteq> GoogleApiError 404 m)
               \<and> e1 = GetTableError ''failed to get table'' er'"
    using BigQuery_GetTableSchema_error [of TableName pfx z Metadata tn e1]
    by (auto simp: not_found_iff)
  have 3: "Metadata tn = Inl (GoogleApiError 404 msg) \<Longrightarrow>
        BigQuery_GetTableSchema_part_002 z Metadata tn
          = Inr \<lparr>Name = tn, Columns = [], PKFields = {}, PrimaryKeyName = []\<rparr>"
    using BigQuery_GetTableSchema_part_002_absent [of Metadata tn _ z] n by simp
  have 4: "BigQuery_GetTableSchema_part_002 z Metadata tn = Inl e1 \<Longrightarrow>
        \<exists>er'. Metadata tn = Inl er' \<and> (\<forall>m. er' \<noteq> GoogleApiError 404 m)
               \<and> e1 = GetTableError ''failed to get table'' er'"
    using BigQuery_GetTableSchema_part_002_error [of z Metadata tn e1]
    by (auto simp: not_found_iff)
  from 1 2 3 4 Postgres_GetTableSchema_absent [of sq tn z pq]
    Postgres_GetTableSchema_error [of z sq pq tn e2]
  show ?thesis by blast
qed

theorem C4_GetTableSchema_not_found_witness:
  "example_metadata ''missing'' = Inl (GoogleApiError 404 ''not found'')
   \<and> BigQuery_TableName (\<lambda>s. True) ''missing'' = ''missing''
   \<and> BigQuery_GetTableSchema (BigQuery_TableName (\<lambda>s. True)) ''bulker_pk_'' UNKNOWN
        example_metadata ''missing''
       = Inr \<lparr>Name = ''missing'', Columns = [], PKFields = {}, PrimaryKeyName = []\<rparr>
   \<and> BigQuery_GetTableSchema_part_002 UNKNOWN example_metadata ''missing''
       = Inr \<lparr>Name = ''missing'', Columns = [], PKFields = {}, PrimaryKeyName = []\<rparr>
   \<and> example_schema_query ''missing'' = Rows [] None
   \<and> Postgres_GetTableSchema UNKNOWN example_schema_query example_pk_query ''missing''
       = Inr \<lparr>Name = ''missing'', Columns = [], PKFields = {}, PrimaryKeyName = []\<rparr>
   \<and> BigQuery_GetTableSchema (BigQuery_TableName (\<lambda>s. True)) ''bulker_pk_'' UNKNOWN
        example_metadata ''broken''
       = Inl (GetTableError ''failed to get table'' (GoogleApiError 500 ''backend error''))
   \<and> BigQuery_GetTableSchema_part_002 UNKNOWN example_metadata ''broken''
       = Inl (GetTableError ''failed to get table'' (GoogleApiError 500 ''backend error''))
   \<and> example_metadata ''broken'' = Inl (GoogleApiError 500 ''backend error'')
   \<and> Postgres_GetTableSchema UNKNOWN example_schema_query example_pk_query ''broken''
       = Inl (GetTableError ''failed to get table columns'' ''connection lost'')
   \<and> query_failed (example_schema_query ''broken'')"
proof -
  have t: "BigQuery_TableName (\<lambda>s. True) ''missing'' = ''missing''"
    and t': "BigQuery_TableName (\<lambda>s. True) ''broken'' = ''broken''"
    by (simp_all add: BigQuery_TableName_short)
  have m: "example_metadata ''missing'' = Inl (GoogleApiError 404 ''not found'')"
    and q: "example_schema_query ''missing'' = Rows [] None"
    by (simp_all add: example_metadata_def example_schema_query_def)
  have b: "BigQuery_GetTableSchema (BigQuery_TableName (\<lambda>s. True)) ''bulker_pk_'' UNKNOWN
        example_metadata ''broken''
       = Inl (GetTableError ''failed to get table'' (GoogleApiError 500 ''backend error''))"
    unfolding BigQuery_GetTableSchema_def t' Let_def
    by (simp add: example_metadata_def isNotFoundErr_def)
  have b2: "BigQuery_GetTableSchema_part_002 UNKNOWN example_metadata ''broken''
       = Inl (GetTableError ''failed to get table'' (GoogleApiError 500 ''backend error''))"
    and p: "Postgres_GetTableSchema UNKNOWN example_schema_query example_pk_query ''broken''
       = Inl (GetTableError ''failed to get table columns'' ''connection lost'')"
    by (simp_all add: BigQuery_GetTableSchema_part_002_def
        Postgres_GetTableSchema_def getTable_def example_metadata_def isNotFoundErr_def
        example_schema_query_def)
  have e: "example_metadata ''broken'' = Inl (GoogleApiError 500 ''backend error'')"
    by (simp add: example_metadata_def)
  from C4_GetTableSchema_not_found [of example_metadata "BigQuery_TableName (\<lambda>s. True)"
      "''missing''" "''not found''" "''bulker_pk_''" UNKNOWN
      undefined example_schema_query example_pk_query undefined]
    C4_GetTableSchema_not_found [of example_metadata "BigQuery_TableName (\<lambda>s. True)"
      "''broken''" undefined "''bulker_pk_''" UNKNOWN
      "GetTableError ''failed to get table'' (GoogleApiError 500 ''backend error'')"
      example_schema_query example_pk_query
      "GetTableError ''failed to get table columns'' ''connection lost''"]
    t t' m q b b2 p e
  show ?thesis
    by (auto simp: query_failed_def example_pk_query_def example_schema_query_def)
qed


section \<open>Postgres.LoadTable\<close>

lemma copyRecords_all:
  "\<forall>args. pg_exec env args = None \<Longrightarrow>
   copyRecords env (map Inr records) sent
     = (None, sent @ map (map (\<lambda>v. if v = [CHR 0x5C, CHR ''N''] then SqlNull else SqlString v)) records)"
  by (induction records arbitrary: sent) (simp_all add: Let_def)

text \<open>
  For any outcome of the executions, the rows that \<^verbatim>\<open>Postgres.LoadTable\<close> has executed
  are the bound records of a prefix of the file's records.
\<close>

lemma copyRecords_sent:
  "copyRecords env reads sent = (r, sent') \<Longrightarrow>
   \<exists>k. sent' = sent @ map (map (\<lambda>v. if v = [CHR 0x5C, CHR ''N''] then SqlNull else SqlString v))
                        (take k (map projr (takeWhile (\<lambda>r. \<not> isl r) reads)))"
proof (induction env reads sent rule: copyRecords.induct)
  case (1 env sent)
  then show ?case by simp
next
  case (2 env e rest sent)
  then show ?case by simp
next
  case (3 env fields rest sent)
  show ?case
  proof (cases "pg_exec env (map (\<lambda>v. if v = [CHR 0x5C, CHR ''N''] then SqlNull else SqlString v) fields)")
    case None
    with 3 obtain k where
      "sent' = (sent @ [map (\<lambda>v. if v = [CHR 0x5C, CHR ''N''] then SqlNull else SqlString v) fields])
          @ map (map (\<lambda>v. if v = [CHR 0x5C, CHR ''N''] then SqlNull else SqlString v))
              (take k (map projr (takeWhile (\<lambda>r. \<not> isl r) rest)))"
      by (auto simp: Let_def)
    then show ?thesis by (intro exI [of _ "Suc k"]) simp
  next
    case (Some e)
    with 3 show ?thesis by (intro exI [of _ 0]) (simp add: Let_def)
  qed
qed

text \<open>
  Claim C9. For a local CSV staging file whose statement prepares and whose rows all
  execute, \<^verbatim>\<open>Postgres.LoadTable\<close> drops the first record (the header, whatever its
  content) and executes the statement once for every further record, in the order of
  the file. A field that is exactly the two bytes backslash, \<^verbatim>\<open>N\<close> is bound as SQL NULL;
  every other field, the empty one too, is bound as its literal string. The fields
  are bound by position on the \<^verbatim>\<open>COPY\<close> statement whose column list is the table's
  column names in sorted order: when the header row names the columns in that order,
  every column receives the field the file holds under its name.
\<close>

theorem C9_postgres_load_csv:
  assumes "SourceType ls = LocalFile" and "Format ls = FileFormatCSV"
    and "pg_prepare env (pgCopyStatement schema t) = None"
    and "pg_open env (Path ls) = Inr (header # map Inr records)"
    and "\<forall>args. pg_exec env args = None"
    and "pg_flush env = None" and "pg_close env = None"
  shows "Postgres_LoadTable env schema t ls =
           (None,
            Some (''COPY '' @ pg_fullTableName schema (Name t) @ ''(''
                  @ Join (map (\<lambda>name. [doubleQuote] @ name @ [doubleQuote])
                            (sort (map fst (Columns t)))) '', ''
                  @ '') FROM STDIN''),
            map (map (\<lambda>v. if v = [CHR 0x5C, CHR ''N''] then SqlNull else SqlString v)) records)
         \<and> (header = Inr (sort (map fst (Columns t))) \<longrightarrow>
              (\<forall>r \<in> set records. \<forall>c.
                 map_of (zip (sort (map fst (Columns t)))
                           (map (\<lambda>v. if v = [CHR 0x5C, CHR ''N''] then SqlNull else SqlString v) r)) c
                 = map_option (\<lambda>v. if v = [CHR 0x5C, CHR ''N''] then SqlNull else SqlString v)
                     (map_of (zip (projr header) r) c)))"
proof -
  have c: "copyRecords env (map Inr records) []
     = (None, map (map (\<lambda>v. if v = [CHR 0x5C, CHR ''N''] then SqlNull else SqlString v)) records)"
    using copyRecords_all [OF assms(5), of records "[]"] by simp
  have p: "pgCopyStatement schema t = ''COPY '' @ pg_fullTableName schema (Name t) @ ''(''
                  @ Join (map (\<lambda>name. [doubleQuote] @ name @ [doubleQuote])
                            (sort (map fst (Columns t)))) '', ''
                  @ '') FROM STDIN''"
    by (simp add: pgCopyStatement_def SortedColumnNames_def)
  have l: "Postgres_LoadTable env schema t ls =
           (None,
            Some (''COPY '' @ pg_fullTableName schema (Name t) @ ''(''
                  @ Join (map (\<lambda>name. [doubleQuote] @ name @ [doubleQuote])
                            (sort (map fst (Columns t)))) '', ''
                  @ '') FROM STDIN''),
            map (map (\<lambda>v. if v = [CHR 0x5C, CHR ''N''] then SqlNull else SqlString v)) records)"
    using assms(1,2,3,4,6,7) c
    by (simp add: Postgres_LoadTable_def Let_def p)
  have z: "map_of (zip hs (map f r)) c = map_option f (map_of (zip hs r) c)"
    for hs :: "string list" and f :: "string \<Rightarrow> sql_value" and r c
  proof (induction hs arbitrary: r)
    case Nil
    show ?case by simp
  next
    case (Cons h hs)
    then show ?case by (cases r) simp_all
  qed
  from l z show ?thesis by simp
qed

theorem C9_postgres_load_csv_witness:
  "SourceType example_csv_source = LocalFile
   \<and> Format example_csv_source = FileFormatCSV
   \<and> pg_open example_pg_env (Path example_csv_source)
       = Inr (Inr [''id'', ''name'']
              # map Inr [[''1'', [CHR 0x5C, CHR ''N'']], [''2'', ''bob''], [''3'', []],
                         [''4'', [CHR 0x5C, CHR ''n'']]])
   \<and> Postgres_LoadTable example_pg_env ''public'' example_table example_csv_source =
        (None,
         Some (''COPY '' @ [doubleQuote] @ ''public'' @ [doubleQuote] @ ''.'' @ [doubleQuote]
               @ ''events'' @ [doubleQuote] @ ''('' @ [doubleQuote] @ ''id'' @ [doubleQuote]
               @ '', '' @ [doubleQuote] @ ''name'' @ [doubleQuote] @ '') FROM STDIN''),
         [[SqlString ''1'', SqlNull], [SqlString ''2'', SqlString ''bob''],
          [SqlString ''3'', SqlString []], [SqlString ''4'', SqlString [CHR 0x5C, CHR ''n'']]])
   \<and> sort (map fst (Columns example_table)) = [''id'', ''name'']
   \<and> map_of (zip [''id'', ''name''] [SqlString ''1'', SqlNull]) ''name''
       = map_option (\<lambda>v. if v = [CHR 0x5C, CHR ''N''] then SqlNull else SqlString v)
           (map_of (zip [''id'', ''name''] [''1'', [CHR 0x5C, CHR ''N'']]) ''name'')"
proof -
  have 1: "SourceType example_csv_source = LocalFile"
    and 2: "Format example_csv_source = FileFormatCSV"
    by (simp_all add: example_csv_source_def)
  have 3: "pg_prepare example_pg_env (pgCopyStatement ''public'' example_table) = None"
    by (simp add: example_pg_env_def)
  have 4: "pg_open example_pg_env (Path example_csv_source)
       = Inr (Inr [''id'', ''name'']
              # map Inr [[''1'', [CHR 0x5C, CHR ''N'']], [''2'', ''bob''], [''3'', []],
                         [''4'', [CHR 0x5C, CHR ''n'']]])"
    by (simp add: example_pg_env_def example_csv_source_def)
  have 5: "\<forall>args. pg_exec example_pg_env args = None"
    and 6: "pg_flush example_pg_env = None" and 7: "pg_close example_pg_env = None"
    by (simp_all add: example_pg_env_def)
  have s: "sort (map fst (Columns example_table)) = [''id'', ''name'']"
    by (simp add: example_table_def)
  from C9_postgres_load_csv [OF 1 2 3 4 5 6 7] 1 2 4 s show ?thesis
    by (simp add: pg_fullTableName_def example_table_def)
qed


section \<open>ClickHouse.LoadTable\<close>

lemma loadLines_committed:
  "loadLines env z t columns lines d = (r, d') \<Longrightarrow> committed d' = committed d"
  by (induction env z t columns lines d rule: loadLines.induct)
     (auto simp: tx_exec_def split: sum.splits option.splits)

text \<open>
  Every error return of \<^verbatim>\<open>ClickHouse.LoadTable\<close> leaves the table as it was: the
  deferred function rolls the transaction back. So does the panic after a failed
  \<^verbatim>\<open>BeginTx\<close>.
\<close>

lemma ClickHouse_LoadTable_error_unchanged:
  "ClickHouse_LoadTable env f z d t ls = (Returned (Some e), d') \<Longrightarrow> committed d' = committed d"
  by (auto simp: ClickHouse_LoadTable_def chDeferred_def tx_rollback_def Let_def
      split: if_splits option.splits sum.splits prod.splits dest: loadLines_committed)

lemma ClickHouse_LoadTable_panic_unchanged:
  "ClickHouse_LoadTable env f z d t ls = (Panicked, d') \<Longrightarrow> d' = d"
  by (auto simp: ClickHouse_LoadTable_def chDeferred_def Let_def
      split: if_splits option.splits sum.splits prod.splits)

text \<open>
  A call that returns nil has committed one row for every line that the scanner
  delivered, after the rows that were in the table.
\<close>

lemma loadLines_rows:
  "loadLines env z t columns lines d = (None, d') \<Longrightarrow>
   \<exists>rows. pending d' = pending d @ rows \<and> length rows = length lines"
proof (induction env z t columns lines d rule: loadLines.induct)
  case (1 env z t columns d)
  then show ?case by simp
next
  case (2 env z t columns line rest d)
  from "2.prems" obtain object args where
    o: "ch_decode env line = Inr object" and
    a: "convertArgs env z t object columns = Inr args" and
    x: "ch_exec env args = None" and
    r: "loadLines env z t columns rest (tx_exec args d) = (None, d')"
    by (auto split: sum.splits option.splits)
  from "2.IH" [OF o a x r] obtain rows where
    "pending d' = pending (tx_exec args d) @ rows" and "length rows = length rest"
    by blast
  then show ?case
    by (intro exI [of _ "args # rows"]) (simp add: tx_exec_def)
qed

lemma ClickHouse_LoadTable_success:
  assumes "ClickHouse_LoadTable env f z d t ls = (Returned None, d')"
  shows "\<exists>file rows. ch_open env (Path ls) = Inr file
           \<and> committed d' = committed d @ pending d @ rows
           \<and> length rows = length (fst (scanLines file []))
           \<and> pending d' = []"
proof -
  from assms obtain content d1 where
    f: "ch_open env (Path ls) = Inr content" and
    l: "loadLines env z t (SortedColumnNames t) (fst (scanLines content [])) d = (None, d1)" and
    d: "d' = tx_commit d1"
    by (auto simp: ClickHouse_LoadTable_def chDeferred_def Let_def
        split: if_splits option.splits sum.splits prod.splits)
  from loadLines_rows [OF l] obtain rows where
    "pending d1 = pending d @ rows" and "length rows = length (fst (scanLines content []))"
    by blast
  with f d loadLines_committed [OF l] show ?thesis
    by (simp add: tx_commit_def)
qed

lemma scanLines_replicate:
  "c \<noteq> CHR 0x0A \<Longrightarrow> scanLines (replicate n c @ rest) cur = scanLines rest (cur @ replicate n c)"
proof (induction n arbitrary: cur)
  case 0
  then show ?case by simp
next
  case (Suc n)
  then show ?case by (simp add: replicate_append_same)
qed

lemma scan_example_file: "scanLines example_file [] = ([''{}''], True)"
proof -
  have "scanLines (replicate 70000 (CHR '' '') @ ''}'' @ [CHR 0x0A] @ ''{}'' @ [CHR 0x0A]) ''{''
          = ([], True)"
    by (subst scanLines_replicate) (simp_all add: MaxScanTokenSize_def)
  then show ?thesis
    by (simp add: example_file_def MaxScanTokenSize_def dropCR_def)
qed

text \<open>
  Claim C1 fails on \<^verbatim>\<open>ClickHouse.LoadTable\<close>: the loop ends when \<^verbatim>\<open>scanner.Scan()\<close> returns
  false, and \<^verbatim>\<open>scanner.Err()\<close> is never read. A staging file of three lines, each a valid
  (empty) JSON object, whose second line is longer than 64 KiB: the scanner delivers
  the first line and stops with \<^verbatim>\<open>ErrTooLong\<close>; the function commits that one row and
  returns nil. The table then holds one row of the three.
\<close>

theorem C1_clickhouse_load_partial:
  "length (filter (\<lambda>c. c = CHR 0x0A) example_file) = 3
   \<and> scanLines example_file [] = ([''{}''], True)
   \<and> ClickHouse_LoadTable example_ch_env FileFormatNDJSON UNKNOWN
        \<lparr>committed = [], pending = []\<rparr> example_ch_table example_json_source
       = (Returned None, \<lparr>committed = [[None, None]], pending = []\<rparr>)"
proof -
  have s: "SortedColumnNames example_ch_table = [''id'', ''name'']"
    by (simp add: SortedColumnNames_def example_ch_table_def)
  have "ClickHouse_LoadTable example_ch_env FileFormatNDJSON UNKNOWN
        \<lparr>committed = [], pending = []\<rparr> example_ch_table example_json_source
       = (Returned None, \<lparr>committed = [[None, None]], pending = []\<rparr>)"
    by (simp add: ClickHouse_LoadTable_def example_json_source_def example_ch_env_def
        scan_example_file s chDeferred_def tx_commit_def tx_exec_def)
  moreover have "length (filter (\<lambda>c. c = CHR 0x0A) example_file) = 3"
    by (simp add: example_file_def)
  ultimately show ?thesis by (simp add: scan_example_file)
qed


section \<open>ReplaceTable\<close>

lemma ClickHouse_ReplaceTable_ok:
  assumes "tables w repl = Some c" and "target \<noteq> repl"
  shows "fst (ClickHouse_ReplaceTable (\<lambda>s. None) [] w target repl dropOld) = None"
    and "tables (snd (ClickHouse_ReplaceTable (\<lambda>s. None) [] w target repl dropOld))
           = (tables w)(target \<mapsto> c, repl := (if dropOld then None else tables w target))"
    and "single_cutover w (snd (ClickHouse_ReplaceTable (\<lambda>s. None) [] w target repl dropOld))
           target c"
  using assms
  by (cases "tables w target"; cases dropOld;
      auto simp: ClickHouse_ReplaceTable_def ch_ExecContext_def ClickHouse_DropTable_def
        ch_dropTable_def wh_set_def ch_tableNameFunc_def single_cutover_def fun_upd_twist)+

text \<open>
  With the distributed tables in place beside the local ones, the same holds on a
  cluster.
\<close>

lemma ClickHouse_ReplaceTable_cluster_ok:
  assumes "tables w repl = Some c" and "target \<noteq> repl"
    and "cluster \<noteq> []"
    and "tables w (fullDistTableName repl) = Some cd"
    and "(tables w (fullDistTableName target) = None) = (tables w target = None)"
    and "fullDistTableName target \<noteq> repl" and "fullDistTableName repl \<noteq> target"
    and "fullDistTableName target \<noteq> target" and "fullDistTableName repl \<noteq> repl"
  shows "fst (ClickHouse_ReplaceTable (\<lambda>s. None) cluster w target repl dropOld) = None"
    and "tables (snd (ClickHouse_ReplaceTable (\<lambda>s. None) cluster w target repl dropOld))
           = (tables w)(target \<mapsto> c, repl := (if dropOld then None else tables w target),
                        fullDistTableName target \<mapsto> cd,
                        fullDistTableName repl :=
                          (if dropOld then None else tables w (fullDistTableName target)))"
    and "single_cutover w
           (snd (ClickHouse_ReplaceTable (\<lambda>s. None) cluster w target repl dropOld)) target c"
proof -
  have d: "fullDistTableName target \<noteq> fullDistTableName repl"
    using assms(2) by (simp add: fullDistTableName_def ch_tableNameFunc_def)
  note defs = ClickHouse_ReplaceTable_def ch_ExecContext_def ClickHouse_DropTable_def
        ch_dropTable_def wh_set_def ch_tableNameFunc_def single_cutover_def
  show "fst (ClickHouse_ReplaceTable (\<lambda>s. None) cluster w target repl dropOld) = None"
    using assms d
    by (cases "tables w target"; cases "tables w (fullDistTableName target)"; cases dropOld)
       (auto simp: defs)
  show "tables (snd (ClickHouse_ReplaceTable (\<lambda>s. None) cluster w target repl dropOld))
           = (tables w)(target \<mapsto> c, repl := (if dropOld then None else tables w target),
                        fullDistTableName target \<mapsto> cd,
                        fullDistTableName repl :=
                          (if dropOld then None else tables w (fullDistTableName target)))"
    using assms d
    by (cases "tables w target"; cases "tables w (fullDistTableName target)"; cases dropOld)
       (auto simp: defs fun_eq_iff)
  show "single_cutover w
           (snd (ClickHouse_ReplaceTable (\<lambda>s. None) cluster w target repl dropOld)) target c"
    using assms d
    by (cases "tables w target"; cases "tables w (fullDistTableName target)"; cases dropOld)
       (auto simp: defs)
qed

lemma BigQuery_ReplaceTable_ok:
  assumes "tables w repl = Some c" and "target \<noteq> repl"
    and "TableName target = target" and "TableName repl = repl"
  shows "\<exists>w'. BigQuery_ReplaceTable TableName (\<lambda>s. None) (\<lambda>s. None) w target repl dropOld
                = Some (None, w')
             \<and> tables w' = (tables w)(target \<mapsto> c, repl := (if dropOld then None else Some c))
             \<and> single_cutover w w' target c"
  using assms
  by (cases dropOld;
      auto simp: BigQuery_ReplaceTable_def RunJob_def BigQuery_DropTable_def bq_request_def
        wh_set_def single_cutover_def fun_upd_twist Let_def)

text \<open>When the copy job cannot be started, \<^verbatim>\<open>BigQuery.ReplaceTable\<close> of bigquery.go panics.\<close>

lemma BigQuery_ReplaceTable_panics:
  "starts (CopyJob (TableName target) (TableName repl)) = Some e \<Longrightarrow>
   BigQuery_ReplaceTable TableName starts fails w target repl dropOld = None"
  by (simp add: BigQuery_ReplaceTable_def RunJob_def Let_def)

lemma BigQuery_ReplaceTable_part_002_ok:
  assumes "tables w repl = Some c" and "target \<noteq> repl"
  shows "fst (BigQuery_ReplaceTable_part_002 (\<lambda>s. None) w target repl dropOld) = None"
    and "tables (snd (BigQuery_ReplaceTable_part_002 (\<lambda>s. None) w target repl dropOld))
           = (tables w)(target \<mapsto> c, repl := (if dropOld then None else Some c))"
    and "single_cutover w
           (snd (BigQuery_ReplaceTable_part_002 (\<lambda>s. None) w target repl dropOld)) target c"
  using assms
  by (cases dropOld;
      auto simp: BigQuery_ReplaceTable_part_002_def bq_request_def wh_set_def
        single_cutover_def fun_upd_twist)+

text \<open>
  Claim C2, as stated, fails. The BigQuery adapter copies the replacement over the
  target: with \<^verbatim>\<open>dropOldTable\<close> unset the replacement still holds its own contents
  afterwards, not the old contents of the target (no swap), and it still exists when
  the target did not exist before (no rename). And the call does not succeed for
  every pair of names: it needs the replacement table to exist.
\<close>

theorem C2_replace_table_counterexample:
  "tables example_warehouse ''t'' = Some [1, 2, 3]
   \<and> tables (snd (the (BigQuery_ReplaceTable (\<lambda>s. s) (\<lambda>s. None) (\<lambda>s. None)
                         example_warehouse ''t'' ''tmp'' False))) ''tmp'' = Some [9, 10]
   \<and> tables (snd (the (BigQuery_ReplaceTable (\<lambda>s. s) (\<lambda>s. None) (\<lambda>s. None)
                         \<lparr>tables = [''tmp'' \<mapsto> [9, 10 :: nat]], history = []\<rparr>
                         ''t'' ''tmp'' False))) ''tmp'' = Some [9, 10]
   \<and> fst (ClickHouse_ReplaceTable (\<lambda>s. None) [] example_warehouse ''t'' ''missing'' True)
       = Some (ErrRenaming ''missing'' ErrTableNotExist)"
  by (simp add: BigQuery_ReplaceTable_def RunJob_def bq_request_def wh_set_def
      example_warehouse_def ClickHouse_ReplaceTable_def ch_ExecContext_def ch_tableNameFunc_def Let_def)

text \<open>
  Claim C2, amended. When the replacement table exists, is not the target itself,
  and no statement or job fails for a reason of the warehouse's own, \<^verbatim>\<open>ReplaceTable\<close>
  succeeds and the target then holds exactly the contents the replacement had; every
  state a reader can observe during the call shows the target with its old contents
  or with the new ones (\<^const>\<open>single_cutover\<close>). ClickHouse (no cluster configured)
  exchanges the two tables when the target exists and renames the replacement when
  it does not: afterwards the replacement's name holds what the target held before
  (nothing, if it did not exist), and is dropped when \<^verbatim>\<open>dropOldTable\<close> is set. BigQuery
  (both adapters; in bigquery.go for names that \<^verbatim>\<open>TableName\<close> leaves as they are) copies
  the replacement over the target, creating it when missing: the replacement keeps its
  own contents, and is dropped when \<^verbatim>\<open>dropOldTable\<close> is set.
\<close>

theorem C2_replace_table_amended:
  assumes "tables w repl = Some c" and "target \<noteq> repl"
    and "TableName target = target" and "TableName repl = repl"
  shows
    "fst (ClickHouse_ReplaceTable (\<lambda>s. None) [] w target repl dropOld) = None
     \<and> tables (snd (ClickHouse_ReplaceTable (\<lambda>s. None) [] w target repl dropOld))
         = (tables w)(target \<mapsto> c, repl := (if dropOld then None else tables w target))
     \<and> single_cutover w (snd (ClickHouse_ReplaceTable (\<lambda>s. None) [] w target repl dropOld))
         target c
     \<and> (\<exists>w'. BigQuery_ReplaceTable TableName (\<lambda>s. None) (\<lambda>s. None) w target repl dropOld
                 = Some (None, w')
              \<and> tables w' = (tables w)(target \<mapsto> c, repl := (if dropOld then None else Some c))
              \<and> single_cutover w w' target c)
     \<and> fst (BigQuery_ReplaceTable_part_002 (\<lambda>s. None) w target repl dropOld) = None
     \<and> tables (snd (BigQuery_ReplaceTable_part_002 (\<lambda>s. None) w target repl dropOld))
         = (tables w)(target \<mapsto> c, repl := (if dropOld then None else Some c))
     \<and> single_cutover w
         (snd (BigQuery_ReplaceTable_part_002 (\<lambda>s. None) w target repl dropOld)) target c"
  using ClickHouse_ReplaceTable_ok [OF assms(1,2)] BigQuery_ReplaceTable_ok [OF assms]
    BigQuery_ReplaceTable_part_002_ok [OF assms(1,2)]
  by simp

theorem C2_replace_table_amended_witness:
  "tables example_warehouse ''tmp'' = Some [9, 10]
   \<and> fst (ClickHouse_ReplaceTable (\<lambda>s. None) [] example_warehouse ''t'' ''tmp'' False) = None
   \<and> tables (snd (ClickHouse_ReplaceTable (\<lambda>s. None) [] example_warehouse ''t'' ''tmp'' False))
       = [''t'' \<mapsto> [9, 10], ''tmp'' \<mapsto> [1, 2, 3]]
   \<and> fst (the (BigQuery_ReplaceTable (\<lambda>s. s) (\<lambda>s. None) (\<lambda>s. None) example_warehouse
                   ''t'' ''tmp'' True)) = None
   \<and> tables (snd (the (BigQuery_ReplaceTable (\<lambda>s. s) (\<lambda>s. None) (\<lambda>s. None)
                         example_warehouse ''t'' ''tmp'' True)))
       = [''t'' \<mapsto> [9, 10]]
   \<and> single_cutover example_warehouse
        (snd (the (BigQuery_ReplaceTable (\<lambda>s. s) (\<lambda>s. None) (\<lambda>s. None) example_warehouse
                     ''t'' ''tmp'' True)))
        ''t'' [9, 10]"
proof -
  have r: "tables example_warehouse ''tmp'' = Some [9, 10]"
    and t: "tables example_warehouse ''t'' = Some [1, 2, 3]"
    by (simp_all add: example_warehouse_def)
  have n: "''t'' \<noteq> ''tmp''" by simp
  have e1: "(tables example_warehouse)(''t'' \<mapsto> [9, 10], ''tmp'' := Some [1, 2, 3])
              = [''t'' \<mapsto> [9, 10], ''tmp'' \<mapsto> [1, 2, 3]]"
    and e2: "(tables example_warehouse)(''t'' \<mapsto> [9, 10], ''tmp'' := None) = [''t'' \<mapsto> [9, 10]]"
    by (auto simp: example_warehouse_def fun_eq_iff)
  from C2_replace_table_amended [OF r n, of "\<lambda>s. s" False]
    C2_replace_table_amended [OF r n, of "\<lambda>s. s" True] r t e1 e2
  show ?thesis by auto
qed

end
